theory Spec2Isabelle
  imports Main
begin

section \<open>Data model of \<open>app.py\<close>\<close>

text \<open>
  The five SQLAlchemy models become records, one field per column. Each record prefixes
  its field names with the initial of the model (\<open>j_status\<close> is \<open>Job.status\<close>,
  \<open>a_job_id\<close> is \<open>Assignment.job_id\<close>), since the models share column names and
  \<open>id\<close> is a constant of HOL. Integer columns are \<open>int\<close>, nullable columns are
  options, string columns are strings. The timestamp columns (\<open>created_at\<close>,
  \<open>date_posted\<close>, \<open>viewed_at\<close>, \<open>requested_at\<close>, \<open>assigned_at\<close>) are left out: no
  route that writes to the database reads them.
\<close>

record user =
  u_id :: int
  u_name :: string
  u_phone :: string
  u_password_hash :: string
  u_role :: string

record job =
  j_id :: int
  j_farmer_id :: int
  j_title :: string
  j_work_type :: "string option"
  j_days :: int
  j_stay_info :: "string option"
  j_wage :: "string option"
  j_location :: "string option"
  j_contact :: "string option"
  j_status :: string

record view_notification =
  v_id :: int
  v_job_id :: int
  v_labour_id :: int
  v_seen :: bool

record change_request =
  c_id :: int
  c_job_id :: int
  c_labour_id :: int
  c_requested_days :: "int option"
  c_requested_wage :: "string option"
  c_requested_stay :: "string option"
  c_message :: string
  c_status :: string

record assignment =
  a_id :: int
  a_job_id :: int
  a_labour_id :: int
  a_accepted_by_farmer :: bool
  a_confirmed_by_labour :: bool

text \<open>
  The database is one list of rows per table, in insertion order. A route works on a
  copy of it; \<open>db.session.commit()\<close> is the returned database, and a request that
  ends in an exception or an abort returns the database it was given (the pending
  changes of the request's session are rolled back with it).
\<close>

record db =
  users :: "user list"
  jobs :: "job list"
  views :: "view_notification list"
  change_requests :: "change_request list"
  assignments :: "assignment list"

definition empty_db :: db where
  "empty_db = \<lparr>users = [], jobs = [], views = [], change_requests = [], assignments = []\<rparr>"

text \<open>
  What the routes read of a request: the session cookie (only its \<open>user_id\<close> is ever
  read back), the form, and for the two routes that serve both methods the method.
\<close>

record session =
  s_user_id :: "int option"

type_synonym form = "string \<rightharpoonup> string"

datatype http_method = GET | POST

datatype py_exception = AttributeError | ValueError

text \<open>
  A response is a redirect to an endpoint or a rendered template, each with the messages
  flashed on the way, an abort with its HTTP status (\<open>get_or_404\<close> gives 404, a
  missing form key 400), or the exception that ended the request.
\<close>

datatype response =
    Redirect string "string list"
  | Render string "string list"
  | Abort nat
  | Raised py_exception

section \<open>Library behaviour the routes rely on\<close>

text \<open>
  An integer primary key of a new row is one more than the largest key of the table,
  and 1 in an empty table.
\<close>

fun max_id :: "int list \<Rightarrow> int" where
  "max_id [] = 0"
| "max_id [x] = x"
| "max_id (x # y # ys) = max x (max_id (y # ys))"

definition next_id :: "int list \<Rightarrow> int" where
  "next_id ids = max_id ids + 1"

text \<open>
  Python's \<open>int(s)\<close> on a string. A \<open>char\<close> stands for the code point of that
  number, so the strings here are the Python strings of code points below 256. The
  whitespace that \<open>int\<close> strips from both ends is tab, line feed, vertical tab, form
  feed, carriage return and space (9 to 13 and 32) and, beyond ASCII, next line (133)
  and no-break space (160); the separators 28 to 31 are not stripped. Then one sign is
  allowed, then decimal digits, where single underscores may stand between digits.
  Anything else raises \<open>ValueError\<close>, and so does a string of more than
  \<open>max_str_digits\<close> digits (the default of \<open>sys.int_max_str_digits\<close>).
\<close>

definition is_space :: "char \<Rightarrow> bool" where
  "is_space c = (let n = (of_char c :: nat) in n = 32 \<or> (9 \<le> n \<and> n \<le> 13) \<or> n = 133 \<or> n = 160)"

definition digit_of :: "char \<Rightarrow> int option" where
  "digit_of c = (let n = (of_char c :: nat) in if 48 \<le> n \<and> n \<le> 57 then Some (int n - 48) else None)"

fun parse_digits :: "int \<Rightarrow> string \<Rightarrow> int option" where
  "parse_digits acc [] = Some acc"
| "parse_digits acc [c] =
     (case digit_of c of None \<Rightarrow> None | Some v \<Rightarrow> Some (acc * 10 + v))"
| "parse_digits acc (c # d # ds) =
     (if c = CHR ''_'' then
        (case digit_of d of None \<Rightarrow> None | Some v \<Rightarrow> parse_digits (acc * 10 + v) ds)
      else
        (case digit_of c of None \<Rightarrow> None | Some v \<Rightarrow> parse_digits (acc * 10 + v) (d # ds)))"

definition strip :: "string \<Rightarrow> string" where
  "strip s = rev (dropWhile is_space (rev (dropWhile is_space s)))"

definition parse_unsigned :: "string \<Rightarrow> int option" where
  "parse_unsigned s =
     (case s of [] \<Rightarrow> None
      | c # cs \<Rightarrow> (case digit_of c of None \<Rightarrow> None | Some v \<Rightarrow> parse_digits v cs))"

definition max_str_digits :: nat where
  "max_str_digits = 4300"

definition digit_count :: "string \<Rightarrow> nat" where
  "digit_count s = length (filter (\<lambda>c. digit_of c \<noteq> None) s)"

definition py_int :: "string \<Rightarrow> py_exception + int" where
  "py_int s =
     (if max_str_digits < digit_count s then Inl ValueError
      else
        (case strip s of
           [] \<Rightarrow> Inl ValueError
         | c # cs \<Rightarrow>
             (if c = CHR ''-'' then
                (case parse_unsigned cs of None \<Rightarrow> Inl ValueError | Some n \<Rightarrow> Inr (- n))
              else if c = CHR ''+'' then
                (case parse_unsigned cs of None \<Rightarrow> Inl ValueError | Some n \<Rightarrow> Inr n)
              else
                (case parse_unsigned (c # cs) of None \<Rightarrow> Inl ValueError | Some n \<Rightarrow> Inr n))))"

section \<open>Queries\<close>

text \<open>\<open>Model.query.get(k)\<close> and \<open>Model.query.filter_by(...).first()\<close>.\<close>

definition get_user :: "db \<Rightarrow> int \<Rightarrow> user option" where
  "get_user d k = find (\<lambda>u. u_id u = k) (users d)"

definition get_job :: "db \<Rightarrow> int \<Rightarrow> job option" where
  "get_job d k = find (\<lambda>j. j_id j = k) (jobs d)"

definition get_change_request :: "db \<Rightarrow> int \<Rightarrow> change_request option" where
  "get_change_request d k = find (\<lambda>c. c_id c = k) (change_requests d)"

definition get_assignment :: "db \<Rightarrow> int \<Rightarrow> assignment option" where
  "get_assignment d k = find (\<lambda>a. a_id a = k) (assignments d)"

definition first_user_by_phone :: "db \<Rightarrow> string \<Rightarrow> user option" where
  "first_user_by_phone d phone = find (\<lambda>u. u_phone u = phone) (users d)"

definition first_view :: "db \<Rightarrow> int \<Rightarrow> int \<Rightarrow> view_notification option" where
  "first_view d jid lid = find (\<lambda>v. v_job_id v = jid \<and> v_labour_id v = lid) (views d)"

definition first_assignment :: "db \<Rightarrow> int \<Rightarrow> int \<Rightarrow> assignment option" where
  "first_assignment d jid lid = find (\<lambda>a. a_job_id a = jid \<and> a_labour_id a = lid) (assignments d)"

text \<open>
  An attribute assignment on a loaded row is written back as an update of the rows
  with that primary key.
\<close>

definition update_job :: "db \<Rightarrow> int \<Rightarrow> (job \<Rightarrow> job) \<Rightarrow> db" where
  "update_job d k f = d\<lparr>jobs := map (\<lambda>j. if j_id j = k then f j else j) (jobs d)\<rparr>"

definition update_change_request :: "db \<Rightarrow> int \<Rightarrow> (change_request \<Rightarrow> change_request) \<Rightarrow> db" where
  "update_change_request d k f =
     d\<lparr>change_requests := map (\<lambda>c. if c_id c = k then f c else c) (change_requests d)\<rparr>"

definition update_assignment :: "db \<Rightarrow> int \<Rightarrow> (assignment \<Rightarrow> assignment) \<Rightarrow> db" where
  "update_assignment d k f =
     d\<lparr>assignments := map (\<lambda>a. if a_id a = k then f a else a) (assignments d)\<rparr>"

text \<open>\<open>db.session.add\<close> of a new \<open>Assignment(job_id, labour_id, accepted_by_farmer=True)\<close>.\<close>

definition add_assignment :: "db \<Rightarrow> int \<Rightarrow> int \<Rightarrow> db" where
  "add_assignment d jid lid =
     d\<lparr>assignments := assignments d @
        [\<lparr>a_id = next_id (map a_id (assignments d)), a_job_id = jid, a_labour_id = lid,
          a_accepted_by_farmer = True, a_confirmed_by_labour = False\<rparr>]\<rparr>"

text \<open>
  The find-or-create block that \<open>decide_change\<close> (lines 261 to 266) and
  \<open>assign_labour\<close> (lines 290 to 295) both write out:
  \<^verbatim>\<open>
  assign = Assignment.query.filter_by(job_id=..., labour_id=...).first()
  if not assign:
      assign = Assignment(job_id=..., labour_id=..., accepted_by_farmer=True)
      db.session.add(assign)
  else:
      assign.accepted_by_farmer = True
  \<close>
\<close>

definition upsert_assignment :: "db \<Rightarrow> int \<Rightarrow> int \<Rightarrow> db" where
  "upsert_assignment d jid lid =
     (case first_assignment d jid lid of
        None \<Rightarrow> add_assignment d jid lid
      | Some assign \<Rightarrow>
          update_assignment d (a_id assign) (\<lambda>a. a\<lparr>a_accepted_by_farmer := True\<rparr>))"

text \<open>Truth value of an optional string in a condition.\<close>

definition truthy_str :: "string option \<Rightarrow> bool" where
  "truthy_str x = (case x of None \<Rightarrow> False | Some s \<Rightarrow> s \<noteq> [])"

section \<open>Routes\<close>

definition current_user :: "db \<Rightarrow> session \<Rightarrow> user option" where
  "current_user d s =
     (case s_user_id s of
        None \<Rightarrow> None
      | Some uid \<Rightarrow> if uid = 0 then None else get_user d uid)"

text \<open>
  The two registration routes differ in the role they store and in their endpoints.
  \<open>hash\<close> is \<open>generate_password_hash\<close> as it answered in this request.
\<close>

definition register :: "string \<Rightarrow> string \<Rightarrow> string \<Rightarrow> db \<Rightarrow> (string \<Rightarrow> string) \<Rightarrow> http_method \<Rightarrow> form \<Rightarrow> db \<times> response" where
  "register role here login d hash m f =
     (if m = POST then
        (case f ''name'' of None \<Rightarrow> (d, Abort 400) | Some name \<Rightarrow>
         case f ''phone'' of None \<Rightarrow> (d, Abort 400) | Some phone \<Rightarrow>
         case f ''password'' of None \<Rightarrow> (d, Abort 400) | Some password \<Rightarrow>
           (case first_user_by_phone d phone of
              Some _ \<Rightarrow> (d, Redirect here [''Phone already registered''])
            | None \<Rightarrow>
                (d\<lparr>users := users d @
                    [\<lparr>u_id = next_id (map u_id (users d)), u_name = name, u_phone = phone,
                      u_password_hash = hash password, u_role = role\<rparr>]\<rparr>,
                 Redirect login [''Registered! Please login.''])))
      else (d, Render here []))"

definition farmer_register :: "db \<Rightarrow> (string \<Rightarrow> string) \<Rightarrow> http_method \<Rightarrow> form \<Rightarrow> db \<times> response" where
  "farmer_register = register ''farmer'' ''farmer_register'' ''farmer_login''"

definition labour_register :: "db \<Rightarrow> (string \<Rightarrow> string) \<Rightarrow> http_method \<Rightarrow> form \<Rightarrow> db \<times> response" where
  "labour_register = register ''labour'' ''labour_register'' ''labour_login''"

definition post_job :: "db \<Rightarrow> session \<Rightarrow> http_method \<Rightarrow> form \<Rightarrow> db \<times> response" where
  "post_job d s m f =
     (case current_user d s of
        None \<Rightarrow> (d, Redirect ''farmer_login'' [])
      | Some user \<Rightarrow>
          if u_role user \<noteq> ''farmer'' then (d, Redirect ''farmer_login'' [])
          else if m = POST then
            (case f ''title'' of
               None \<Rightarrow> (d, Abort 400)
             | Some title \<Rightarrow>
                 (case (case f ''days'' of None \<Rightarrow> Inr 1
                        | Some t \<Rightarrow> if t = [] then Inr 1 else py_int t) of
                    Inl e \<Rightarrow> (d, Raised e)
                  | Inr days \<Rightarrow>
                      (d\<lparr>jobs := jobs d @
                          [\<lparr>j_id = next_id (map j_id (jobs d)), j_farmer_id = u_id user,
                            j_title = title, j_work_type = f ''work_type'', j_days = days,
                            j_stay_info = f ''stay_info'', j_wage = f ''wage'',
                            j_location = f ''location'', j_contact = f ''contact'',
                            j_status = ''open''\<rparr>]\<rparr>,
                       Redirect ''farmer_dashboard'' [''Job posted''])))
          else (d, Render ''post_job.html'' []))"

definition job_view :: "db \<Rightarrow> session \<Rightarrow> int \<Rightarrow> db \<times> response" where
  "job_view d s job_id =
     (case get_job d job_id of
        None \<Rightarrow> (d, Abort 404)
      | Some job \<Rightarrow>
          (case current_user d s of
             None \<Rightarrow> (d, Render ''job_view.html'' [])
           | Some user \<Rightarrow>
               if u_role user = ''labour'' then
                 (case first_view d job_id (u_id user) of
                    Some existing \<Rightarrow> (d, Render ''job_view.html'' [])
                  | None \<Rightarrow>
                      (d\<lparr>views := views d @
                          [\<lparr>v_id = next_id (map v_id (views d)), v_job_id = job_id,
                            v_labour_id = u_id user, v_seen = False\<rparr>]\<rparr>,
                       Render ''job_view.html'' []))
               else (d, Render ''job_view.html'' [])))"

definition request_change :: "db \<Rightarrow> session \<Rightarrow> int \<Rightarrow> form \<Rightarrow> db \<times> response" where
  "request_change d s job_id f =
     (case current_user d s of
        None \<Rightarrow> (d, Redirect ''labour_login'' [''Please login as labour to request changes''])
      | Some user \<Rightarrow>
          if u_role user \<noteq> ''labour'' then
            (d, Redirect ''labour_login'' [''Please login as labour to request changes''])
          else
            (case (case f ''requested_days'' of
                     None \<Rightarrow> Inr None
                   | Some t \<Rightarrow> if t = [] then Inr None else map_sum id Some (py_int t)) of
               Inl e \<Rightarrow> (d, Raised e)
             | Inr requested_days \<Rightarrow>
                 (d\<lparr>change_requests := change_requests d @
                     [\<lparr>c_id = next_id (map c_id (change_requests d)), c_job_id = job_id,
                       c_labour_id = u_id user, c_requested_days = requested_days,
                       c_requested_wage =
                         (if truthy_str (f ''requested_wage'') then f ''requested_wage'' else None),
                       c_requested_stay =
                         (if truthy_str (f ''requested_stay'') then f ''requested_stay'' else None),
                       c_message = (case f ''message'' of None \<Rightarrow> [] | Some t \<Rightarrow> t),
                       c_status = ''pending''\<rparr>]\<rparr>,
                  Redirect ''job_view'' [''Change request sent to farmer''])))"

text \<open>
  In the accepting branch the job is looked up with \<open>Job.query.get\<close>, which answers
  \<open>None\<close> for a missing row; the assignment \<open>job.status = 'assigned'\<close> is reached on
  every path and raises \<open>AttributeError\<close> on \<open>None\<close>, before the commit.
\<close>

definition decide_change :: "db \<Rightarrow> session \<Rightarrow> int \<Rightarrow> form \<Rightarrow> db \<times> response" where
  "decide_change d s change_id f =
     (case current_user d s of
        None \<Rightarrow> (d, Redirect ''farmer_login'' [])
      | Some user \<Rightarrow>
          if u_role user \<noteq> ''farmer'' then (d, Redirect ''farmer_login'' [])
          else
            (case get_change_request d change_id of
               None \<Rightarrow> (d, Abort 404)
             | Some cr \<Rightarrow>
                 if f ''decision'' = Some ''accept'' then
                   (let d1 = update_change_request d (c_id cr) (\<lambda>c. c\<lparr>c_status := ''accepted''\<rparr>);
                        d2 = upsert_assignment d1 (c_job_id cr) (c_labour_id cr)
                    in case get_job d2 (c_job_id cr) of
                         None \<Rightarrow> (d, Raised AttributeError)
                       | Some job \<Rightarrow>
                           (let d3 = (case c_requested_days cr of
                                        None \<Rightarrow> d2
                                      | Some n \<Rightarrow>
                                          if n \<noteq> 0
                                          then update_job d2 (j_id job) (\<lambda>j. j\<lparr>j_days := n\<rparr>)
                                          else d2);
                                d4 = (if truthy_str (c_requested_wage cr)
                                      then update_job d3 (j_id job)
                                             (\<lambda>j. j\<lparr>j_wage := c_requested_wage cr\<rparr>)
                                      else d3);
                                d5 = (if truthy_str (c_requested_stay cr)
                                      then update_job d4 (j_id job)
                                             (\<lambda>j. j\<lparr>j_stay_info := c_requested_stay cr\<rparr>)
                                      else d4);
                                d6 = update_job d5 (j_id job) (\<lambda>j. j\<lparr>j_status := ''assigned''\<rparr>)
                            in (d6, Redirect ''farmer_dashboard''
                                  [''Change accepted and labour assigned (awaiting labour confirmation).''])))
                 else
                   (update_change_request d (c_id cr) (\<lambda>c. c\<lparr>c_status := ''rejected''\<rparr>),
                    Redirect ''farmer_dashboard'' [''Change request rejected.''])))"

definition assign_labour :: "db \<Rightarrow> session \<Rightarrow> int \<Rightarrow> int \<Rightarrow> db \<times> response" where
  "assign_labour d s job_id labour_id =
     (case current_user d s of
        None \<Rightarrow> (d, Redirect ''farmer_login'' [])
      | Some user \<Rightarrow>
          if u_role user \<noteq> ''farmer'' then (d, Redirect ''farmer_login'' [])
          else
            (let d1 = upsert_assignment d job_id labour_id
             in case get_job d1 job_id of
                  None \<Rightarrow> (d, Raised AttributeError)
                | Some job \<Rightarrow>
                    (update_job d1 (j_id job) (\<lambda>j. j\<lparr>j_status := ''assigned''\<rparr>),
                     Redirect ''farmer_dashboard''
                       [''Labour accepted for job. Waiting for labour confirmation.''])))"

text \<open>
  After \<open>assign.confirmed_by_labour = True\<close> the condition
  \<open>assign.accepted_by_farmer and assign.confirmed_by_labour\<close> is the farmer's flag; the
  job is dereferenced only under it.
\<close>

definition confirm_assignment :: "db \<Rightarrow> session \<Rightarrow> int \<Rightarrow> db \<times> response" where
  "confirm_assignment d s assign_id =
     (case current_user d s of
        None \<Rightarrow> (d, Redirect ''labour_login'' [])
      | Some user \<Rightarrow>
          if u_role user \<noteq> ''labour'' then (d, Redirect ''labour_login'' [])
          else
            (case get_assignment d assign_id of
               None \<Rightarrow> (d, Abort 404)
             | Some assign \<Rightarrow>
                 if a_labour_id assign \<noteq> u_id user then
                   (d, Redirect ''labour_dashboard'' [''Not allowed''])
                 else
                   (let d1 = update_assignment d (a_id assign)
                               (\<lambda>a. a\<lparr>a_confirmed_by_labour := True\<rparr>)
                    in if a_accepted_by_farmer assign then
                         (case get_job d1 (a_job_id assign) of
                            None \<Rightarrow> (d, Raised AttributeError)
                          | Some job \<Rightarrow>
                              (update_job d1 (j_id job) (\<lambda>j. j\<lparr>j_status := ''confirmed''\<rparr>),
                               Redirect ''labour_dashboard'' [''You confirmed the assignment.'']))
                       else (d1, Redirect ''labour_dashboard'' [''You confirmed the assignment.'']))))"

section \<open>Requests and reachable states\<close>

text \<open>
  One constructor per route that can write to the database; the remaining routes
  (dashboards, notifications, login, logout, index) only read it.
\<close>

datatype request =
    FarmerRegister "string \<Rightarrow> string" http_method form
  | LabourRegister "string \<Rightarrow> string" http_method form
  | PostJob session http_method form
  | JobView session int
  | RequestChange session int form
  | DecideChange session int form
  | AssignLabour session int int
  | ConfirmAssignment session int

fun handle :: "db \<Rightarrow> request \<Rightarrow> db \<times> response" where
  "handle d (FarmerRegister h m f) = farmer_register d h m f"
| "handle d (LabourRegister h m f) = labour_register d h m f"
| "handle d (PostJob s m f) = post_job d s m f"
| "handle d (JobView s j) = job_view d s j"
| "handle d (RequestChange s j f) = request_change d s j f"
| "handle d (DecideChange s c f) = decide_change d s c f"
| "handle d (AssignLabour s j l) = assign_labour d s j l"
| "handle d (ConfirmAssignment s a) = confirm_assignment d s a"

fun run :: "db \<Rightarrow> request list \<Rightarrow> db" where
  "run d [] = d"
| "run d (r # rs) = run (fst (handle d r)) rs"

inductive reachable :: "db \<Rightarrow> bool" where
  init: "reachable empty_db"
| step: "reachable d \<Longrightarrow> reachable (fst (handle d r))"

section \<open>The scenario of the specification\<close>

text \<open>
  Farmer F registers and gets user id 1, labourers L and L2 get ids 2 and 3, and F posts
  job 1 with \<open>days = 3\<close> and \<open>wage = 500/day\<close>. A session holds the id that the
  login route stored for the user. \<open>hash0\<close> stands for \<open>generate_password_hash\<close>.
\<close>

definition hash0 :: "string \<Rightarrow> string" where
  "hash0 password = ''pbkdf2:'' @ password"

definition farmer_F :: session where
  "farmer_F = \<lparr>s_user_id = Some 1\<rparr>"

definition labour_L :: session where
  "labour_L = \<lparr>s_user_id = Some 2\<rparr>"

definition labour_L2 :: session where
  "labour_L2 = \<lparr>s_user_id = Some 3\<rparr>"

definition posted :: "request list" where
  "posted =
     [FarmerRegister hash0 POST [''name'' \<mapsto> ''F'', ''phone'' \<mapsto> ''100'', ''password'' \<mapsto> ''pf''],
      LabourRegister hash0 POST [''name'' \<mapsto> ''L'', ''phone'' \<mapsto> ''200'', ''password'' \<mapsto> ''pl''],
      LabourRegister hash0 POST [''name'' \<mapsto> ''L2'', ''phone'' \<mapsto> ''300'', ''password'' \<mapsto> ''pm''],
      PostJob farmer_F POST [''title'' \<mapsto> ''Harvest'', ''days'' \<mapsto> ''3'', ''wage'' \<mapsto> ''500/day'']]"

text \<open>L views job 1 and asks for five days instead of three: change request 1, pending.\<close>

definition requested :: "request list" where
  "requested = posted @ [JobView labour_L 1, RequestChange labour_L 1 [''requested_days'' \<mapsto> ''5'']]"

text \<open>F accepts change request 1 (assignment 1, for L), and L confirms assignment 1.\<close>

definition accepted :: "request list" where
  "accepted = requested @ [DecideChange farmer_F 1 [''decision'' \<mapsto> ''accept'']]"

definition confirmed :: "request list" where
  "confirmed = accepted @ [ConfirmAssignment labour_L 1]"

text \<open>
  Instead of five days, L asks for another wage and a stay, and writes 0 into the days
  field.
\<close>

definition negotiated :: "request list" where
  "negotiated = posted @
     [RequestChange labour_L 1
        [''requested_days'' \<mapsto> ''0'', ''requested_wage'' \<mapsto> ''600/day'',
         ''requested_stay'' \<mapsto> ''Room provided'']]"

text \<open>After L has confirmed, L2 asks for a change of job 1: change request 2, pending.\<close>

definition renegotiated :: "request list" where
  "renegotiated = confirmed @ [RequestChange labour_L2 1 Map.empty]"

text \<open>Instead, L asks for a change of job 7, which nobody has posted.\<close>

definition dangling :: "request list" where
  "dangling = posted @ [RequestChange labour_L 7 Map.empty]"

definition job_status :: "db \<Rightarrow> int \<Rightarrow> string option" where
  "job_status d k = map_option j_status (get_job d k)"

section \<open>The integer parser on some inputs\<close>

lemma py_int_examples:
  "py_int ''0'' = Inr 0"
  "py_int ''-2'' = Inr (- 2)"
  "py_int '' +1_000 '' = Inr 1000"
  "py_int ''5_'' = Inl ValueError"
  "py_int ''1__0'' = Inl ValueError"
  "py_int ''- 5'' = Inl ValueError"
  "py_int [CHR 0x1C, CHR ''5''] = Inl ValueError"
  "py_int [CHR ''5'', CHR 0x1F] = Inl ValueError"
  "py_int [CHR 0xA0, CHR ''5''] = Inr 5"
  "py_int [CHR 0x85, CHR ''5'', CHR 0x0A] = Inr 5"
  "py_int [CHR ''5'', CHR 0xA0, CHR ''5''] = Inl ValueError"
  by code_simp+

lemma py_int_too_long: "max_str_digits < digit_count s \<Longrightarrow> py_int s = Inl ValueError"
  by (simp add: py_int_def)

section \<open>Lookups and updates\<close>

lemma find_key_eq: "find (\<lambda>x. g x = k) xs = Some y \<Longrightarrow> g y = k"
  by (induction xs) (auto split: if_splits)

lemma get_job_id: "get_job d k = Some j \<Longrightarrow> j_id j = k"
  unfolding get_job_def by (rule find_key_eq)

lemma get_change_request_id: "get_change_request d k = Some c \<Longrightarrow> c_id c = k"
  unfolding get_change_request_def by (rule find_key_eq)

lemma get_assignment_id: "get_assignment d k = Some a \<Longrightarrow> a_id a = k"
  unfolding get_assignment_def by (rule find_key_eq)

lemma update_job_fields [simp]:
  "users (update_job d k h) = users d"
  "views (update_job d k h) = views d"
  "change_requests (update_job d k h) = change_requests d"
  "assignments (update_job d k h) = assignments d"
  "jobs (update_job d k h) = map (\<lambda>j. if j_id j = k then h j else j) (jobs d)"
  by (simp_all add: update_job_def)

lemma update_change_request_fields [simp]:
  "users (update_change_request d k h) = users d"
  "views (update_change_request d k h) = views d"
  "jobs (update_change_request d k h) = jobs d"
  "assignments (update_change_request d k h) = assignments d"
  "change_requests (update_change_request d k h) =
     map (\<lambda>c. if c_id c = k then h c else c) (change_requests d)"
  by (simp_all add: update_change_request_def)

lemma update_assignment_fields [simp]:
  "users (update_assignment d k h) = users d"
  "views (update_assignment d k h) = views d"
  "jobs (update_assignment d k h) = jobs d"
  "change_requests (update_assignment d k h) = change_requests d"
  "assignments (update_assignment d k h) =
     map (\<lambda>a. if a_id a = k then h a else a) (assignments d)"
  by (simp_all add: update_assignment_def)

lemma add_assignment_fields [simp]:
  "users (add_assignment d j l) = users d"
  "views (add_assignment d j l) = views d"
  "jobs (add_assignment d j l) = jobs d"
  "change_requests (add_assignment d j l) = change_requests d"
  "assignments (add_assignment d j l) = assignments d @
     [\<lparr>a_id = next_id (map a_id (assignments d)), a_job_id = j, a_labour_id = l,
       a_accepted_by_farmer = True, a_confirmed_by_labour = False\<rparr>]"
  by (simp_all add: add_assignment_def)

lemma upsert_assignment_fields [simp]:
  "users (upsert_assignment d j l) = users d"
  "views (upsert_assignment d j l) = views d"
  "jobs (upsert_assignment d j l) = jobs d"
  "change_requests (upsert_assignment d j l) = change_requests d"
  by (simp_all add: upsert_assignment_def split: option.split)

lemma truthy_str_iff: "truthy_str x \<longleftrightarrow> x \<noteq> None \<and> x \<noteq> Some []"
  by (cases x) (simp_all add: truthy_str_def)

lemma get_job_cong: "jobs d = jobs e \<Longrightarrow> get_job d k = get_job e k"
  by (simp add: get_job_def)

lemma first_assignment_cong:
  "assignments d = assignments e \<Longrightarrow> first_assignment d j l = first_assignment e j l"
  by (simp add: first_assignment_def)

lemma upsert_assignment_cong:
  "assignments d = assignments e \<Longrightarrow> assignments (upsert_assignment d j l) = assignments (upsert_assignment e j l)"
  by (simp add: upsert_assignment_def first_assignment_def split: option.split)

lemma update_job_compose:
  assumes "\<And>j. j_id (g j) = j_id j"
  shows "update_job (update_job d k g) k h = update_job d k (\<lambda>j. h (g j))"
  by (simp add: update_job_def o_def assms cong: if_cong)

lemma update_job_chain:
  "update_job
     (let e1 = (case rd of None \<Rightarrow> e
                | Some n \<Rightarrow> if n \<noteq> 0 then update_job e k (\<lambda>j. j\<lparr>j_days := n\<rparr>) else e);
          e2 = (if bw then update_job e1 k (\<lambda>j. j\<lparr>j_wage := w\<rparr>) else e1)
      in (if bs then update_job e2 k (\<lambda>j. j\<lparr>j_stay_info := st\<rparr>) else e2))
     k (\<lambda>j. j\<lparr>j_status := ''assigned''\<rparr>) =
   update_job e k
     (\<lambda>j. j\<lparr>j_days := (case rd of None \<Rightarrow> j_days j | Some n \<Rightarrow> if n \<noteq> 0 then n else j_days j),
            j_wage := (if bw then w else j_wage j),
            j_stay_info := (if bs then st else j_stay_info j),
            j_status := ''assigned''\<rparr>)"
  by (cases rd; cases bw; cases bs; cases "the rd = 0")
     (simp_all add: Let_def update_job_compose)

section \<open>What each route returns\<close>

lemma decide_change_accept_unfold:
  assumes "current_user d s = Some u" and "u_role u = ''farmer''"
    and "get_change_request d cid = Some cr"
    and "f ''decision'' = Some ''accept''"
  shows "decide_change d s cid f =
    (case get_job d (c_job_id cr) of
       None \<Rightarrow> (d, Raised AttributeError)
     | Some job \<Rightarrow>
         (update_job
            (upsert_assignment
               (update_change_request d cid (\<lambda>c. c\<lparr>c_status := ''accepted''\<rparr>))
               (c_job_id cr) (c_labour_id cr))
            (c_job_id cr)
            (\<lambda>j. j\<lparr>j_days := (case c_requested_days cr of
                                 None \<Rightarrow> j_days j
                               | Some n \<Rightarrow> if n \<noteq> 0 then n else j_days j),
                   j_wage := (if truthy_str (c_requested_wage cr)
                              then c_requested_wage cr else j_wage j),
                   j_stay_info := (if truthy_str (c_requested_stay cr)
                                   then c_requested_stay cr else j_stay_info j),
                   j_status := ''assigned''\<rparr>),
          Redirect ''farmer_dashboard''
            [''Change accepted and labour assigned (awaiting labour confirmation).'']))"
proof -
  have cid: "c_id cr = cid" using assms(3) by (rule get_change_request_id)
  define d2 where "d2 = upsert_assignment
    (update_change_request d cid (\<lambda>c. c\<lparr>c_status := ''accepted''\<rparr>)) (c_job_id cr) (c_labour_id cr)"
  have "jobs d2 = jobs d"
    by (simp add: d2_def)
  then have gj: "get_job d2 (c_job_id cr) = get_job d (c_job_id cr)"
    by (rule get_job_cong)
  have step: "decide_change d s cid f =
     (case get_job d2 (c_job_id cr) of
        None \<Rightarrow> (d, Raised AttributeError)
      | Some job \<Rightarrow>
          (let d3 = (case c_requested_days cr of
                       None \<Rightarrow> d2
                     | Some n \<Rightarrow>
                         if n \<noteq> 0
                         then update_job d2 (j_id job) (\<lambda>j. j\<lparr>j_days := n\<rparr>)
                         else d2);
               d4 = (if truthy_str (c_requested_wage cr)
                     then update_job d3 (j_id job) (\<lambda>j. j\<lparr>j_wage := c_requested_wage cr\<rparr>)
                     else d3);
               d5 = (if truthy_str (c_requested_stay cr)
                     then update_job d4 (j_id job) (\<lambda>j. j\<lparr>j_stay_info := c_requested_stay cr\<rparr>)
                     else d4);
               d6 = update_job d5 (j_id job) (\<lambda>j. j\<lparr>j_status := ''assigned''\<rparr>)
           in (d6, Redirect ''farmer_dashboard''
                 [''Change accepted and labour assigned (awaiting labour confirmation).''])))"
    unfolding decide_change_def d2_def
    using assms cid by (simp only: option.case if_True if_False Let_def simp_thms)
  show ?thesis
  proof (cases "get_job d (c_job_id cr)")
    case None
    then show ?thesis using step gj by simp
  next
    case (Some job)
    then have jid: "j_id job = c_job_id cr" by (rule get_job_id)
    show ?thesis
      unfolding step gj Some Let_def option.case jid
      using update_job_chain[where rd = "c_requested_days cr" and e = d2 and k = "c_job_id cr"
          and bw = "truthy_str (c_requested_wage cr)" and w = "c_requested_wage cr"
          and bs = "truthy_str (c_requested_stay cr)" and st = "c_requested_stay cr"]
      unfolding Let_def d2_def by simp
  qed
qed

lemma decide_change_other:
  assumes "current_user d s = Some u" and "u_role u = ''farmer''"
    and "get_change_request d cid = Some cr"
    and "f ''decision'' \<noteq> Some ''accept''"
  shows "decide_change d s cid f =
           (update_change_request d cid (\<lambda>c. c\<lparr>c_status := ''rejected''\<rparr>),
            Redirect ''farmer_dashboard'' [''Change request rejected.''])"
  using assms get_change_request_id[OF assms(3)]
  by (simp add: decide_change_def)

lemma decide_change_missing:
  assumes "current_user d s = Some u" and "u_role u = ''farmer''"
    and "get_change_request d cid = None"
  shows "decide_change d s cid f = (d, Abort 404)"
  using assms by (simp add: decide_change_def)

lemma decide_change_not_farmer:
  assumes "\<forall>u. current_user d s = Some u \<longrightarrow> u_role u \<noteq> ''farmer''"
  shows "decide_change d s cid f = (d, Redirect ''farmer_login'' [])"
  using assms by (simp add: decide_change_def split: option.split)

lemma assign_labour_unfold:
  assumes "current_user d s = Some u" and "u_role u = ''farmer''"
  shows "assign_labour d s jid lid =
    (case get_job d jid of
       None \<Rightarrow> (d, Raised AttributeError)
     | Some job \<Rightarrow>
         (update_job (upsert_assignment d jid lid) jid (\<lambda>j. j\<lparr>j_status := ''assigned''\<rparr>),
          Redirect ''farmer_dashboard''
            [''Labour accepted for job. Waiting for labour confirmation.'']))"
proof -
  have "jobs (upsert_assignment d jid lid) = jobs d" by simp
  then have gj: "get_job (upsert_assignment d jid lid) jid = get_job d jid"
    by (rule get_job_cong)
  show ?thesis
    using assms get_job_id[of d jid]
    by (simp add: assign_labour_def Let_def gj split: option.split)
qed

lemma assign_labour_not_farmer:
  assumes "\<forall>u. current_user d s = Some u \<longrightarrow> u_role u \<noteq> ''farmer''"
  shows "assign_labour d s jid lid = (d, Redirect ''farmer_login'' [])"
  using assms by (simp add: assign_labour_def split: option.split)

lemma confirm_assignment_unfold:
  assumes "current_user d s = Some u" and "u_role u = ''labour''"
    and "get_assignment d aid = Some a"
  shows "confirm_assignment d s aid =
    (if a_labour_id a \<noteq> u_id u then (d, Redirect ''labour_dashboard'' [''Not allowed''])
     else if a_accepted_by_farmer a then
       (case get_job d (a_job_id a) of
          None \<Rightarrow> (d, Raised AttributeError)
        | Some job \<Rightarrow>
            (update_job (update_assignment d aid (\<lambda>a. a\<lparr>a_confirmed_by_labour := True\<rparr>))
               (a_job_id a) (\<lambda>j. j\<lparr>j_status := ''confirmed''\<rparr>),
             Redirect ''labour_dashboard'' [''You confirmed the assignment.'']))
     else (update_assignment d aid (\<lambda>a. a\<lparr>a_confirmed_by_labour := True\<rparr>),
           Redirect ''labour_dashboard'' [''You confirmed the assignment.'']))"
proof -
  have aid: "a_id a = aid" using assms(3) by (rule get_assignment_id)
  have "jobs (update_assignment d aid (\<lambda>a. a\<lparr>a_confirmed_by_labour := True\<rparr>)) = jobs d" by simp
  then have gj: "get_job (update_assignment d aid (\<lambda>a. a\<lparr>a_confirmed_by_labour := True\<rparr>)) (a_job_id a)
      = get_job d (a_job_id a)"
    by (rule get_job_cong)
  show ?thesis
    using assms aid get_job_id[of d "a_job_id a"]
    by (simp add: confirm_assignment_def Let_def gj split: option.split)
qed

lemma confirm_assignment_no_change:
  assumes "(\<forall>u. current_user d s = Some u \<longrightarrow> u_role u \<noteq> ''labour'') \<or> get_assignment d aid = None"
  shows "fst (confirm_assignment d s aid) = d"
  using assms by (auto simp add: confirm_assignment_def split: option.split)

lemma find_map_pres:
  assumes "\<And>x. P (g x) = P x"
  shows "find P (map g xs) = map_option g (find P xs)"
  by (induction xs) (simp_all add: assms)

lemma find_append_new:
  "find P xs = None \<Longrightarrow> find P (xs @ [x]) = (if P x then Some x else None)"
  by (induction xs) (auto split: if_splits)

lemma find_append_old:
  "find P xs = Some y \<Longrightarrow> find P (xs @ zs) = Some y"
  by (induction xs) (auto split: if_splits)

lemma find_Some_holds: "find P xs = Some y \<Longrightarrow> P y"
  by (induction xs) (auto split: if_splits)

lemma get_job_update_job:
  assumes "\<And>j. j_id (h j) = j_id j"
  shows "get_job (update_job d k h) k' =
           map_option (\<lambda>j. if j_id j = k then h j else j) (get_job d k')"
  unfolding get_job_def update_job_fields
  by (rule find_map_pres) (simp add: assms)

lemma get_change_request_update:
  assumes "\<And>c. c_id (h c) = c_id c"
  shows "get_change_request (update_change_request d k h) k' =
           map_option (\<lambda>c. if c_id c = k then h c else c) (get_change_request d k')"
  unfolding get_change_request_def update_change_request_fields
  by (rule find_map_pres) (simp add: assms)

lemma get_assignment_update:
  assumes "\<And>a. a_id (h a) = a_id a"
  shows "get_assignment (update_assignment d k h) k' =
           map_option (\<lambda>a. if a_id a = k then h a else a) (get_assignment d k')"
  unfolding get_assignment_def update_assignment_fields
  by (rule find_map_pres) (simp add: assms)

lemma get_change_request_cong:
  "change_requests d = change_requests e \<Longrightarrow> get_change_request d k = get_change_request e k"
  by (simp add: get_change_request_def)

lemma get_assignment_cong:
  "assignments d = assignments e \<Longrightarrow> get_assignment d k = get_assignment e k"
  by (simp add: get_assignment_def)

lemma assignments_upsert:
  "assignments (upsert_assignment d j l) =
     (case first_assignment d j l of
        None \<Rightarrow> assignments d @
          [\<lparr>a_id = next_id (map a_id (assignments d)), a_job_id = j, a_labour_id = l,
            a_accepted_by_farmer = True, a_confirmed_by_labour = False\<rparr>]
      | Some a \<Rightarrow>
          map (\<lambda>x. if a_id x = a_id a then x\<lparr>a_accepted_by_farmer := True\<rparr> else x)
            (assignments d))"
  by (simp add: upsert_assignment_def split: option.split)

lemma first_assignment_upsert:
  "\<exists>a. first_assignment (upsert_assignment d j l) j l = Some a \<and> a_accepted_by_farmer a"
proof (cases "first_assignment d j l")
  case None
  then show ?thesis
    by (simp add: first_assignment_def assignments_upsert find_append_new)
next
  case (Some a)
  have "find (\<lambda>a. a_job_id a = j \<and> a_labour_id a = l)
          (map (\<lambda>x. if a_id x = a_id a then x\<lparr>a_accepted_by_farmer := True\<rparr> else x) (assignments d))
        = map_option (\<lambda>x. if a_id x = a_id a then x\<lparr>a_accepted_by_farmer := True\<rparr> else x)
            (find (\<lambda>a. a_job_id a = j \<and> a_labour_id a = l) (assignments d))"
    by (rule find_map_pres) simp
  with Some show ?thesis
    by (simp add: first_assignment_def assignments_upsert)
qed


lemma decide_change_accept_request:
  assumes "current_user d s = Some u" and "u_role u = ''farmer''"
    and "get_change_request d cid = Some cr"
    and "f ''decision'' = Some ''accept''"
    and "get_job d (c_job_id cr) = Some job"
  shows "snd (decide_change d s cid f) =
           Redirect ''farmer_dashboard''
             [''Change accepted and labour assigned (awaiting labour confirmation).'']
       \<and> get_change_request (fst (decide_change d s cid f)) cid =
           Some (cr\<lparr>c_status := ''accepted''\<rparr>)"
proof -
  note unf = decide_change_accept_unfold[where f = f, OF assms(1-4)]
  have r: "snd (decide_change d s cid f) =
           Redirect ''farmer_dashboard''
             [''Change accepted and labour assigned (awaiting labour confirmation).'']"
    using assms(5) by (simp add: unf)
  have "change_requests (fst (decide_change d s cid f)) =
      change_requests (update_change_request d cid (\<lambda>c. c\<lparr>c_status := ''accepted''\<rparr>))"
    using assms(5) by (simp add: unf)
  then have "get_change_request (fst (decide_change d s cid f)) cid =
      get_change_request (update_change_request d cid (\<lambda>c. c\<lparr>c_status := ''accepted''\<rparr>)) cid"
    by (rule get_change_request_cong)
  then have "get_change_request (fst (decide_change d s cid f)) cid =
      Some (cr\<lparr>c_status := ''accepted''\<rparr>)"
    using assms(3) get_change_request_id[OF assms(3)] by (simp add: get_change_request_update)
  with r show ?thesis by simp
qed

section \<open>Accepting a change request\<close>

text \<open>
  C1, as stated, fails: the claim speaks of every pending change request, and
  \<open>request_change\<close> stores a request for a job id that no job has. Accepting that
  request raises \<open>AttributeError\<close> before the commit: the request is still
  \<open>pending\<close> and no assignment exists.
\<close>

theorem accept_dangling_counterexample:
  "get_change_request (run empty_db dangling) 1 =
     Some \<lparr>c_id = 1, c_job_id = 7, c_labour_id = 2, c_requested_days = None,
           c_requested_wage = None, c_requested_stay = None, c_message = [],
           c_status = ''pending''\<rparr>
   \<and> snd (decide_change (run empty_db dangling) farmer_F 1 [''decision'' \<mapsto> ''accept'']) =
       Raised AttributeError
   \<and> map c_status (change_requests
         (fst (decide_change (run empty_db dangling) farmer_F 1 [''decision'' \<mapsto> ''accept'']))) =
       [''pending'']
   \<and> assignments
         (fst (decide_change (run empty_db dangling) farmer_F 1 [''decision'' \<mapsto> ''accept''])) = []"
  by code_simp

text \<open>
  C1, amended. When a farmer decides a change request with \<open>decision = accept\<close> and the
  job of the request exists, the request gets status \<open>accepted\<close>; the assignment for
  its (job, labourer) pair is created with \<open>accepted_by_farmer = True\<close>, or the
  existing one gets the flag, so that the pair's assignment has it afterwards; the job
  takes each of \<open>days\<close>, \<open>wage\<close> and \<open>stay_info\<close> whose requested value is present
  and truthy (a number other than 0, a string other than the empty one), keeps the
  others, and gets status \<open>assigned\<close>; users and views stay as they are. All of this is
  one commit. When the job does not exist, none of it is kept: the database is the one
  before the request. The route does not read the request's status, so this holds for a
  pending request in particular.
\<close>

theorem accept_effects:
  assumes "current_user d s = Some u" and "u_role u = ''farmer''"
    and "get_change_request d cid = Some cr"
    and "f ''decision'' = Some ''accept''"
  shows "(get_job d (c_job_id cr) = None \<longrightarrow>
            decide_change d s cid f = (d, Raised AttributeError))
       \<and> (\<forall>job. get_job d (c_job_id cr) = Some job \<longrightarrow>
            (\<exists>d'. decide_change d s cid f =
                    (d', Redirect ''farmer_dashboard''
                      [''Change accepted and labour assigned (awaiting labour confirmation).''])
              \<and> change_requests d' =
                  map (\<lambda>c. if c_id c = cid then c\<lparr>c_status := ''accepted''\<rparr> else c)
                    (change_requests d)
              \<and> get_change_request d' cid = Some (cr\<lparr>c_status := ''accepted''\<rparr>)
              \<and> assignments d' =
                  (case first_assignment d (c_job_id cr) (c_labour_id cr) of
                     None \<Rightarrow> assignments d @
                       [\<lparr>a_id = next_id (map a_id (assignments d)), a_job_id = c_job_id cr,
                         a_labour_id = c_labour_id cr, a_accepted_by_farmer = True,
                         a_confirmed_by_labour = False\<rparr>]
                   | Some a \<Rightarrow>
                       map (\<lambda>x. if a_id x = a_id a then x\<lparr>a_accepted_by_farmer := True\<rparr> else x)
                         (assignments d))
              \<and> (\<exists>a. first_assignment d' (c_job_id cr) (c_labour_id cr) = Some a
                      \<and> a_accepted_by_farmer a)
              \<and> jobs d' =
                  map (\<lambda>j. if j_id j = c_job_id cr
                            then j\<lparr>j_days := (case c_requested_days cr of
                                                 None \<Rightarrow> j_days j
                                               | Some n \<Rightarrow> if n \<noteq> 0 then n else j_days j),
                                   j_wage := (if c_requested_wage cr \<noteq> None \<and> c_requested_wage cr \<noteq> Some []
                                              then c_requested_wage cr else j_wage j),
                                   j_stay_info := (if c_requested_stay cr \<noteq> None \<and> c_requested_stay cr \<noteq> Some []
                                                   then c_requested_stay cr else j_stay_info j),
                                   j_status := ''assigned''\<rparr>
                            else j) (jobs d)
              \<and> get_job d' (c_job_id cr) =
                  Some (job\<lparr>j_days := (case c_requested_days cr of
                                         None \<Rightarrow> j_days job
                                       | Some n \<Rightarrow> if n \<noteq> 0 then n else j_days job),
                           j_wage := (if c_requested_wage cr \<noteq> None \<and> c_requested_wage cr \<noteq> Some []
                                      then c_requested_wage cr else j_wage job),
                           j_stay_info := (if c_requested_stay cr \<noteq> None \<and> c_requested_stay cr \<noteq> Some []
                                           then c_requested_stay cr else j_stay_info job),
                           j_status := ''assigned''\<rparr>)
              \<and> users d' = users d \<and> views d' = views d))"
proof (intro conjI allI impI)
  assume "get_job d (c_job_id cr) = None"
  then show "decide_change d s cid f = (d, Raised AttributeError)"
    by (simp add: decide_change_accept_unfold[where f = f, OF assms])
next
  fix job
  assume job: "get_job d (c_job_id cr) = Some job"
  define d1 where "d1 = update_change_request d cid (\<lambda>c. c\<lparr>c_status := ''accepted''\<rparr>)"
  define d2 where "d2 = upsert_assignment d1 (c_job_id cr) (c_labour_id cr)"
  define h :: "job \<Rightarrow> job" where "h = (\<lambda>j. j\<lparr>j_days := (case c_requested_days cr of
                                 None \<Rightarrow> j_days j
                               | Some n \<Rightarrow> if n \<noteq> 0 then n else j_days j),
                   j_wage := (if c_requested_wage cr \<noteq> None \<and> c_requested_wage cr \<noteq> Some []
                              then c_requested_wage cr else j_wage j),
                   j_stay_info := (if c_requested_stay cr \<noteq> None \<and> c_requested_stay cr \<noteq> Some []
                                   then c_requested_stay cr else j_stay_info j),
                   j_status := ''assigned''\<rparr>)"
  define d' where "d' = update_job d2 (c_job_id cr) h"
  have res: "decide_change d s cid f =
      (d', Redirect ''farmer_dashboard''
             [''Change accepted and labour assigned (awaiting labour confirmation).''])"
    by (simp add: decide_change_accept_unfold[where f = f, OF assms] job d'_def d2_def d1_def h_def
        truthy_str_iff)
  have crs: "change_requests d' =
      map (\<lambda>c. if c_id c = cid then c\<lparr>c_status := ''accepted''\<rparr> else c) (change_requests d)"
    by (simp add: d'_def d2_def d1_def)
  have "get_change_request d' cid = get_change_request d1 cid"
    by (rule get_change_request_cong) (simp add: d'_def d2_def)
  then have gcr: "get_change_request d' cid = Some (cr\<lparr>c_status := ''accepted''\<rparr>)"
    using assms(3) get_change_request_id[OF assms(3)]
    by (simp add: d1_def get_change_request_update)
  have fa: "first_assignment d1 (c_job_id cr) (c_labour_id cr) =
      first_assignment d (c_job_id cr) (c_labour_id cr)"
    by (rule first_assignment_cong) (simp add: d1_def)
  have ad1: "assignments d1 = assignments d"
    by (simp add: d1_def)
  have asg: "assignments d' =
      (case first_assignment d (c_job_id cr) (c_labour_id cr) of
         None \<Rightarrow> assignments d @
           [\<lparr>a_id = next_id (map a_id (assignments d)), a_job_id = c_job_id cr,
             a_labour_id = c_labour_id cr, a_accepted_by_farmer = True,
             a_confirmed_by_labour = False\<rparr>]
       | Some a \<Rightarrow>
           map (\<lambda>x. if a_id x = a_id a then x\<lparr>a_accepted_by_farmer := True\<rparr> else x)
             (assignments d))"
    by (cases "first_assignment d (c_job_id cr) (c_labour_id cr)")
      (simp_all add: d'_def d2_def assignments_upsert fa ad1)
  have "first_assignment d' (c_job_id cr) (c_labour_id cr) =
      first_assignment d2 (c_job_id cr) (c_labour_id cr)"
    by (rule first_assignment_cong) (simp add: d'_def)
  then have fst': "\<exists>a. first_assignment d' (c_job_id cr) (c_labour_id cr) = Some a
      \<and> a_accepted_by_farmer a"
    using first_assignment_upsert[of d1 "c_job_id cr" "c_labour_id cr"] by (simp add: d2_def)
  have jbs: "jobs d' = map (\<lambda>j. if j_id j = c_job_id cr then h j else j) (jobs d)"
    by (simp add: d'_def d2_def d1_def)
  have "get_job d2 (c_job_id cr) = get_job d (c_job_id cr)"
    by (rule get_job_cong) (simp add: d2_def d1_def)
  then have gj: "get_job d' (c_job_id cr) = Some (h job)"
    using job get_job_id[OF job] by (simp add: d'_def get_job_update_job h_def)
  have rest: "users d' = users d" "views d' = views d"
    by (simp_all add: d'_def d2_def d1_def)
  show "\<exists>d'. decide_change d s cid f =
                    (d', Redirect ''farmer_dashboard''
                      [''Change accepted and labour assigned (awaiting labour confirmation).''])
              \<and> change_requests d' =
                  map (\<lambda>c. if c_id c = cid then c\<lparr>c_status := ''accepted''\<rparr> else c)
                    (change_requests d)
              \<and> get_change_request d' cid = Some (cr\<lparr>c_status := ''accepted''\<rparr>)
              \<and> assignments d' =
                  (case first_assignment d (c_job_id cr) (c_labour_id cr) of
                     None \<Rightarrow> assignments d @
                       [\<lparr>a_id = next_id (map a_id (assignments d)), a_job_id = c_job_id cr,
                         a_labour_id = c_labour_id cr, a_accepted_by_farmer = True,
                         a_confirmed_by_labour = False\<rparr>]
                   | Some a \<Rightarrow>
                       map (\<lambda>x. if a_id x = a_id a then x\<lparr>a_accepted_by_farmer := True\<rparr> else x)
                         (assignments d))
              \<and> (\<exists>a. first_assignment d' (c_job_id cr) (c_labour_id cr) = Some a
                      \<and> a_accepted_by_farmer a)
              \<and> jobs d' =
                  map (\<lambda>j. if j_id j = c_job_id cr
                            then j\<lparr>j_days := (case c_requested_days cr of
                                                 None \<Rightarrow> j_days j
                                               | Some n \<Rightarrow> if n \<noteq> 0 then n else j_days j),
                                   j_wage := (if c_requested_wage cr \<noteq> None \<and> c_requested_wage cr \<noteq> Some []
                                              then c_requested_wage cr else j_wage j),
                                   j_stay_info := (if c_requested_stay cr \<noteq> None \<and> c_requested_stay cr \<noteq> Some []
                                                   then c_requested_stay cr else j_stay_info j),
                                   j_status := ''assigned''\<rparr>
                            else j) (jobs d)
              \<and> get_job d' (c_job_id cr) =
                  Some (job\<lparr>j_days := (case c_requested_days cr of
                                         None \<Rightarrow> j_days job
                                       | Some n \<Rightarrow> if n \<noteq> 0 then n else j_days job),
                           j_wage := (if c_requested_wage cr \<noteq> None \<and> c_requested_wage cr \<noteq> Some []
                                      then c_requested_wage cr else j_wage job),
                           j_stay_info := (if c_requested_stay cr \<noteq> None \<and> c_requested_stay cr \<noteq> Some []
                                           then c_requested_stay cr else j_stay_info job),
                           j_status := ''assigned''\<rparr>)
              \<and> users d' = users d \<and> views d' = views d"
    apply (rule exI[of _ d'])
    using res crs gcr asg fst' jbs gj rest unfolding h_def by (intro conjI) assumption+
qed

theorem accept_effects_witness:
  "current_user (run empty_db negotiated) farmer_F =
     Some \<lparr>u_id = 1, u_name = ''F'', u_phone = ''100'', u_password_hash = ''pbkdf2:pf'',
           u_role = ''farmer''\<rparr>
   \<and> get_change_request (run empty_db negotiated) 1 =
     Some \<lparr>c_id = 1, c_job_id = 1, c_labour_id = 2, c_requested_days = Some 0,
           c_requested_wage = Some ''600/day'', c_requested_stay = Some ''Room provided'',
           c_message = [], c_status = ''pending''\<rparr>
   \<and> get_job (run empty_db negotiated) 1 =
     Some \<lparr>j_id = 1, j_farmer_id = 1, j_title = ''Harvest'', j_work_type = None, j_days = 3,
           j_stay_info = None, j_wage = Some ''500/day'', j_location = None, j_contact = None,
           j_status = ''open''\<rparr>
   \<and> get_job (fst (decide_change (run empty_db negotiated) farmer_F 1 [''decision'' \<mapsto> ''accept''])) 1 =
     Some \<lparr>j_id = 1, j_farmer_id = 1, j_title = ''Harvest'', j_work_type = None, j_days = 3,
           j_stay_info = Some ''Room provided'', j_wage = Some ''600/day'', j_location = None,
           j_contact = None, j_status = ''assigned''\<rparr>
   \<and> get_change_request (fst (decide_change (run empty_db negotiated) farmer_F 1 [''decision'' \<mapsto> ''accept''])) 1 =
     Some \<lparr>c_id = 1, c_job_id = 1, c_labour_id = 2, c_requested_days = Some 0,
           c_requested_wage = Some ''600/day'', c_requested_stay = Some ''Room provided'',
           c_message = [], c_status = ''accepted''\<rparr>
   \<and> assignments (fst (decide_change (run empty_db negotiated) farmer_F 1 [''decision'' \<mapsto> ''accept''])) =
     [\<lparr>a_id = 1, a_job_id = 1, a_labour_id = 2, a_accepted_by_farmer = True,
       a_confirmed_by_labour = False\<rparr>]
   \<and> get_job (run empty_db requested) 1 =
     Some \<lparr>j_id = 1, j_farmer_id = 1, j_title = ''Harvest'', j_work_type = None, j_days = 3,
           j_stay_info = None, j_wage = Some ''500/day'', j_location = None, j_contact = None,
           j_status = ''open''\<rparr>
   \<and> get_job (fst (decide_change (run empty_db requested) farmer_F 1 [''decision'' \<mapsto> ''accept''])) 1 =
     Some \<lparr>j_id = 1, j_farmer_id = 1, j_title = ''Harvest'', j_work_type = None, j_days = 5,
           j_stay_info = None, j_wage = Some ''500/day'', j_location = None, j_contact = None,
           j_status = ''assigned''\<rparr>"
proof -
  have u: "current_user (run empty_db negotiated) farmer_F =
     Some \<lparr>u_id = 1, u_name = ''F'', u_phone = ''100'', u_password_hash = ''pbkdf2:pf'',
           u_role = ''farmer''\<rparr>"
    by code_simp
  have c: "get_change_request (run empty_db negotiated) 1 =
     Some \<lparr>c_id = 1, c_job_id = 1, c_labour_id = 2, c_requested_days = Some 0,
           c_requested_wage = Some ''600/day'', c_requested_stay = Some ''Room provided'',
           c_message = [], c_status = ''pending''\<rparr>"
    by code_simp
  have j: "get_job (run empty_db negotiated) 1 =
     Some \<lparr>j_id = 1, j_farmer_id = 1, j_title = ''Harvest'', j_work_type = None, j_days = 3,
           j_stay_info = None, j_wage = Some ''500/day'', j_location = None, j_contact = None,
           j_status = ''open''\<rparr>"
    by code_simp
  have fa: "first_assignment (run empty_db negotiated) 1 2 = None"
    by code_simp
  have as: "assignments (run empty_db negotiated) = []"
    by code_simp
  have t: "get_job (fst (decide_change (run empty_db negotiated) farmer_F 1 [''decision'' \<mapsto> ''accept''])) 1 =
     Some \<lparr>j_id = 1, j_farmer_id = 1, j_title = ''Harvest'', j_work_type = None, j_days = 3,
           j_stay_info = Some ''Room provided'', j_wage = Some ''600/day'', j_location = None,
           j_contact = None, j_status = ''assigned''\<rparr>
   \<and> get_change_request (fst (decide_change (run empty_db negotiated) farmer_F 1 [''decision'' \<mapsto> ''accept''])) 1 =
     Some \<lparr>c_id = 1, c_job_id = 1, c_labour_id = 2, c_requested_days = Some 0,
           c_requested_wage = Some ''600/day'', c_requested_stay = Some ''Room provided'',
           c_message = [], c_status = ''accepted''\<rparr>
   \<and> assignments (fst (decide_change (run empty_db negotiated) farmer_F 1 [''decision'' \<mapsto> ''accept''])) =
     [\<lparr>a_id = 1, a_job_id = 1, a_labour_id = 2, a_accepted_by_farmer = True,
       a_confirmed_by_labour = False\<rparr>]"
    using accept_effects[where f = "[''decision'' \<mapsto> ''accept'']", OF u _ c] j fa as
    by (auto simp: next_id_def)
  have u2: "current_user (run empty_db requested) farmer_F =
     Some \<lparr>u_id = 1, u_name = ''F'', u_phone = ''100'', u_password_hash = ''pbkdf2:pf'',
           u_role = ''farmer''\<rparr>"
    by code_simp
  have c2: "get_change_request (run empty_db requested) 1 =
     Some \<lparr>c_id = 1, c_job_id = 1, c_labour_id = 2, c_requested_days = Some 5,
           c_requested_wage = None, c_requested_stay = None, c_message = [],
           c_status = ''pending''\<rparr>"
    by code_simp
  have j2: "get_job (run empty_db requested) 1 =
     Some \<lparr>j_id = 1, j_farmer_id = 1, j_title = ''Harvest'', j_work_type = None, j_days = 3,
           j_stay_info = None, j_wage = Some ''500/day'', j_location = None, j_contact = None,
           j_status = ''open''\<rparr>"
    by code_simp
  have t2: "get_job (fst (decide_change (run empty_db requested) farmer_F 1 [''decision'' \<mapsto> ''accept''])) 1 =
     Some \<lparr>j_id = 1, j_farmer_id = 1, j_title = ''Harvest'', j_work_type = None, j_days = 5,
           j_stay_info = None, j_wage = Some ''500/day'', j_location = None, j_contact = None,
           j_status = ''assigned''\<rparr>"
    using accept_effects[where f = "[''decision'' \<mapsto> ''accept'']", OF u2 _ c2] j2
    by auto
  show ?thesis using u c j t j2 t2 by blast
qed

section \<open>Rejecting a change request\<close>

text \<open>
  C7. When a farmer decides a change request with any decision other than \<open>accept\<close>,
  \<open>reject\<close> among them, the rows with the request's id get status \<open>rejected\<close> and
  nothing else changes: jobs, assignments, users and views are the lists they were, and
  the other columns and the other change requests are untouched.
\<close>

theorem reject_frame:
  assumes "current_user d s = Some u" and "u_role u = ''farmer''"
    and "get_change_request d cid = Some cr"
    and "f ''decision'' \<noteq> Some ''accept''"
  shows "jobs (fst (decide_change d s cid f)) = jobs d
       \<and> assignments (fst (decide_change d s cid f)) = assignments d
       \<and> users (fst (decide_change d s cid f)) = users d
       \<and> views (fst (decide_change d s cid f)) = views d
       \<and> change_requests (fst (decide_change d s cid f)) =
           map (\<lambda>c. if c_id c = cid then c\<lparr>c_status := ''rejected''\<rparr> else c) (change_requests d)
       \<and> snd (decide_change d s cid f) =
           Redirect ''farmer_dashboard'' [''Change request rejected.'']"
  by (simp add: decide_change_other[where f = f, OF assms])

theorem reject_frame_witness:
  "current_user (run empty_db requested) farmer_F =
     Some \<lparr>u_id = 1, u_name = ''F'', u_phone = ''100'', u_password_hash = ''pbkdf2:pf'',
           u_role = ''farmer''\<rparr>
   \<and> get_change_request (run empty_db requested) 1 =
     Some \<lparr>c_id = 1, c_job_id = 1, c_labour_id = 2, c_requested_days = Some 5,
           c_requested_wage = None, c_requested_stay = None, c_message = [],
           c_status = ''pending''\<rparr>
   \<and> jobs (fst (decide_change (run empty_db requested) farmer_F 1 [''decision'' \<mapsto> ''reject''])) =
       jobs (run empty_db requested)
   \<and> assignments (fst (decide_change (run empty_db requested) farmer_F 1 [''decision'' \<mapsto> ''reject''])) =
       assignments (run empty_db requested)
   \<and> map c_status (change_requests
         (fst (decide_change (run empty_db requested) farmer_F 1 [''decision'' \<mapsto> ''reject'']))) =
       [''rejected'']"
proof -
  have u: "current_user (run empty_db requested) farmer_F =
     Some \<lparr>u_id = 1, u_name = ''F'', u_phone = ''100'', u_password_hash = ''pbkdf2:pf'',
           u_role = ''farmer''\<rparr>"
    by code_simp
  have c: "get_change_request (run empty_db requested) 1 =
     Some \<lparr>c_id = 1, c_job_id = 1, c_labour_id = 2, c_requested_days = Some 5,
           c_requested_wage = None, c_requested_stay = None, c_message = [],
           c_status = ''pending''\<rparr>"
    by code_simp
  have l: "map c_status (change_requests (run empty_db requested)) = [''pending'']"
    by code_simp
  have ids: "map c_id (change_requests (run empty_db requested)) = [1]"
    by code_simp
  note t = reject_frame[where f = "[''decision'' \<mapsto> ''reject'']", OF u _ c]
  have "map c_status (change_requests
         (fst (decide_change (run empty_db requested) farmer_F 1 [''decision'' \<mapsto> ''reject'']))) =
       [''rejected'']"
    using t ids by (auto simp: o_def)
  then show ?thesis using u c t by simp
qed

section \<open>Deciding a request that is missing or already resolved\<close>

text \<open>
  C6, as stated, fails: the route has no check of the request's status, so a request
  that is already accepted is decided again and becomes rejected.
\<close>

theorem redecide_counterexample:
  "map c_status (change_requests (run empty_db accepted)) = [''accepted'']
   \<and> snd (decide_change (run empty_db accepted) farmer_F 1 [''decision'' \<mapsto> ''reject'']) =
       Redirect ''farmer_dashboard'' [''Change request rejected.'']
   \<and> map c_status (change_requests
         (fst (decide_change (run empty_db accepted) farmer_F 1 [''decision'' \<mapsto> ''reject'']))) =
       [''rejected'']"
  by code_simp

text \<open>
  C6, amended. Deciding a change request answers 404 and changes nothing when no request
  has the given id. There is no failure for a request that is already resolved: whatever
  status the request has, a decision other than \<open>accept\<close> is processed and leaves it
  \<open>rejected\<close>, and \<open>accept\<close>, when the job exists, is processed and leaves it
  \<open>accepted\<close>.
\<close>

theorem decide_missing_or_resolved:
  assumes "current_user d s = Some u" and "u_role u = ''farmer''"
  shows "(get_change_request d cid = None \<longrightarrow> decide_change d s cid f = (d, Abort 404))
       \<and> (\<forall>cr. get_change_request d cid = Some cr \<and> f ''decision'' \<noteq> Some ''accept'' \<longrightarrow>
             snd (decide_change d s cid f) =
               Redirect ''farmer_dashboard'' [''Change request rejected.'']
             \<and> get_change_request (fst (decide_change d s cid f)) cid =
               Some (cr\<lparr>c_status := ''rejected''\<rparr>))
       \<and> (\<forall>cr. get_change_request d cid = Some cr \<and> f ''decision'' = Some ''accept''
               \<and> get_job d (c_job_id cr) \<noteq> None \<longrightarrow>
             snd (decide_change d s cid f) =
               Redirect ''farmer_dashboard''
                 [''Change accepted and labour assigned (awaiting labour confirmation).'']
             \<and> get_change_request (fst (decide_change d s cid f)) cid =
               Some (cr\<lparr>c_status := ''accepted''\<rparr>))"
proof (intro conjI allI impI)
  assume "get_change_request d cid = None"
  then show "decide_change d s cid f = (d, Abort 404)"
    using assms by (rule decide_change_missing[rotated 2])
next
  fix cr
  assume a: "get_change_request d cid = Some cr \<and> f ''decision'' \<noteq> Some ''accept''"
  then have r: "decide_change d s cid f =
           (update_change_request d cid (\<lambda>c. c\<lparr>c_status := ''rejected''\<rparr>),
            Redirect ''farmer_dashboard'' [''Change request rejected.''])"
    using assms by (intro decide_change_other[where f = f]) auto
  show "snd (decide_change d s cid f) = Redirect ''farmer_dashboard'' [''Change request rejected.'']"
    by (simp add: r)
  show "get_change_request (fst (decide_change d s cid f)) cid = Some (cr\<lparr>c_status := ''rejected''\<rparr>)"
    using a get_change_request_id[of d cid cr] by (simp add: r get_change_request_update)
next
  fix cr
  assume a: "get_change_request d cid = Some cr \<and> f ''decision'' = Some ''accept''
               \<and> get_job d (c_job_id cr) \<noteq> None"
  then obtain job where job: "get_job d (c_job_id cr) = Some job" by auto
  from a have c: "get_change_request d cid = Some cr" and dec: "f ''decision'' = Some ''accept''"
    by auto
  from decide_change_accept_request[where f = f, OF assms c dec job]
  show "snd (decide_change d s cid f) =
               Redirect ''farmer_dashboard''
                 [''Change accepted and labour assigned (awaiting labour confirmation).'']"
    and "get_change_request (fst (decide_change d s cid f)) cid =
               Some (cr\<lparr>c_status := ''accepted''\<rparr>)"
    by simp_all
qed

theorem decide_missing_or_resolved_witness:
  "current_user (run empty_db accepted) farmer_F =
     Some \<lparr>u_id = 1, u_name = ''F'', u_phone = ''100'', u_password_hash = ''pbkdf2:pf'',
           u_role = ''farmer''\<rparr>
   \<and> get_change_request (run empty_db accepted) 9 = None
   \<and> decide_change (run empty_db accepted) farmer_F 9 [''decision'' \<mapsto> ''reject''] =
       (run empty_db accepted, Abort 404)
   \<and> get_change_request (run empty_db accepted) 1 =
     Some \<lparr>c_id = 1, c_job_id = 1, c_labour_id = 2, c_requested_days = Some 5,
           c_requested_wage = None, c_requested_stay = None, c_message = [],
           c_status = ''accepted''\<rparr>
   \<and> get_change_request
       (fst (decide_change (run empty_db accepted) farmer_F 1 [''decision'' \<mapsto> ''reject''])) 1 =
     Some \<lparr>c_id = 1, c_job_id = 1, c_labour_id = 2, c_requested_days = Some 5,
           c_requested_wage = None, c_requested_stay = None, c_message = [],
           c_status = ''rejected''\<rparr>"
proof -
  have u: "current_user (run empty_db accepted) farmer_F =
     Some \<lparr>u_id = 1, u_name = ''F'', u_phone = ''100'', u_password_hash = ''pbkdf2:pf'',
           u_role = ''farmer''\<rparr>"
    by code_simp
  have n: "get_change_request (run empty_db accepted) 9 = None"
    by code_simp
  have c: "get_change_request (run empty_db accepted) 1 =
     Some \<lparr>c_id = 1, c_job_id = 1, c_labour_id = 2, c_requested_days = Some 5,
           c_requested_wage = None, c_requested_stay = None, c_message = [],
           c_status = ''accepted''\<rparr>"
    by code_simp
  have r: "u_role \<lparr>u_id = 1, u_name = ''F'', u_phone = ''100'', u_password_hash = ''pbkdf2:pf'',
           u_role = ''farmer''\<rparr> = ''farmer''"
    by simp
  note t9 = decide_missing_or_resolved[where f = "[''decision'' \<mapsto> ''reject'']" and cid = 9, OF u r]
  note t1 = decide_missing_or_resolved[where f = "[''decision'' \<mapsto> ''reject'']" and cid = 1, OF u r]
  have a: "decide_change (run empty_db accepted) farmer_F 9 [''decision'' \<mapsto> ''reject''] =
       (run empty_db accepted, Abort 404)"
    using t9 n by blast
  have b: "get_change_request
       (fst (decide_change (run empty_db accepted) farmer_F 1 [''decision'' \<mapsto> ''reject''])) 1 =
     Some \<lparr>c_id = 1, c_job_id = 1, c_labour_id = 2, c_requested_days = Some 5,
           c_requested_wage = None, c_requested_stay = None, c_message = [],
           c_status = ''rejected''\<rparr>"
    using t1 c by simp
  show ?thesis using u n a c b by blast
qed

section \<open>Posting a job\<close>

text \<open>
  C8, as stated, fails: \<open>int(request.form.get('days') or 1)\<close> replaces only a missing or
  empty input by 1. The string \<open>0\<close> is not empty, so it is parsed and the job is stored
  with \<open>days = 0\<close>; a negative input is stored as it is.
\<close>

theorem post_job_days_counterexample:
  "py_int ''0'' = Inr 0
   \<and> map j_days (jobs (fst (post_job (run empty_db posted) farmer_F POST
          [''title'' \<mapsto> ''Weeding'', ''days'' \<mapsto> ''0'']))) = [3, 0]
   \<and> map j_days (jobs (fst (post_job (run empty_db posted) farmer_F POST
          [''title'' \<mapsto> ''Weeding'', ''days'' \<mapsto> ''-2'']))) = [3, - 2]"
  by code_simp

text \<open>
  C8, amended. A farmer's POST with a title creates one job with status \<open>open\<close>. Its
  \<open>days\<close> is 1 when the days input is missing or empty; otherwise it is the integer the
  input parses to, whatever its sign; an input that is not an integer raises
  \<open>ValueError\<close> and creates no job.
\<close>

theorem post_job_days:
  assumes "current_user d s = Some u" and "u_role u = ''farmer''" and "f ''title'' = Some t"
  shows "(f ''days'' = None \<or> f ''days'' = Some [] \<longrightarrow>
           (\<exists>j. post_job d s POST f =
                  (d\<lparr>jobs := jobs d @ [j]\<rparr>, Redirect ''farmer_dashboard'' [''Job posted''])
              \<and> j_status j = ''open'' \<and> j_days j = 1))
       \<and> (\<forall>x n. f ''days'' = Some x \<and> x \<noteq> [] \<and> py_int x = Inr n \<longrightarrow>
           (\<exists>j. post_job d s POST f =
                  (d\<lparr>jobs := jobs d @ [j]\<rparr>, Redirect ''farmer_dashboard'' [''Job posted''])
              \<and> j_status j = ''open'' \<and> j_days j = n))
       \<and> (\<forall>x e. f ''days'' = Some x \<and> x \<noteq> [] \<and> py_int x = Inl e \<longrightarrow>
            post_job d s POST f = (d, Raised e))"
  using assms by (auto simp: post_job_def)

theorem post_job_days_witness:
  "current_user (run empty_db posted) farmer_F =
     Some \<lparr>u_id = 1, u_name = ''F'', u_phone = ''100'', u_password_hash = ''pbkdf2:pf'',
           u_role = ''farmer''\<rparr>
   \<and> py_int ''-2'' = Inr (- 2)
   \<and> (\<exists>j. post_job (run empty_db posted) farmer_F POST [''title'' \<mapsto> ''Weeding'', ''days'' \<mapsto> ''-2''] =
            ((run empty_db posted)\<lparr>jobs := jobs (run empty_db posted) @ [j]\<rparr>,
             Redirect ''farmer_dashboard'' [''Job posted''])
          \<and> j_status j = ''open'' \<and> j_days j = - 2)"
proof -
  have u: "current_user (run empty_db posted) farmer_F =
     Some \<lparr>u_id = 1, u_name = ''F'', u_phone = ''100'', u_password_hash = ''pbkdf2:pf'',
           u_role = ''farmer''\<rparr>"
    by code_simp
  have p: "py_int ''-2'' = Inr (- 2)"
    by code_simp
  have r: "u_role \<lparr>u_id = 1, u_name = ''F'', u_phone = ''100'', u_password_hash = ''pbkdf2:pf'',
           u_role = ''farmer''\<rparr> = ''farmer''"
    by simp
  have ti: "[''title'' \<mapsto> ''Weeding'', ''days'' \<mapsto> ''-2''] ''title'' = Some ''Weeding''"
    by simp
  have dy: "[''title'' \<mapsto> ''Weeding'', ''days'' \<mapsto> ''-2''] ''days'' = Some ''-2''"
    by simp
  note t = post_job_days[where f = "[''title'' \<mapsto> ''Weeding'', ''days'' \<mapsto> ''-2'']", OF u r ti]
  have "\<exists>j. post_job (run empty_db posted) farmer_F POST [''title'' \<mapsto> ''Weeding'', ''days'' \<mapsto> ''-2''] =
            ((run empty_db posted)\<lparr>jobs := jobs (run empty_db posted) @ [j]\<rparr>,
             Redirect ''farmer_dashboard'' [''Job posted''])
          \<and> j_status j = ''open'' \<and> j_days j = - 2"
    using t dy p by blast
  then show ?thesis using u p by blast
qed

section \<open>One request, table by table\<close>

lemma register_cases:
  "fst (register role here login d h m f) = d
   \<or> (\<exists>x. fst (register role here login d h m f) = d\<lparr>users := users d @ [x]\<rparr>)"
  by (auto simp: register_def split: option.split)

lemma post_job_cases:
  "fst (post_job d s m f) = d
   \<or> (\<exists>j. fst (post_job d s m f) = d\<lparr>jobs := jobs d @ [j]\<rparr> \<and> j_status j = ''open'')"
  by (auto simp: post_job_def split: option.split sum.split)

lemma job_view_cases:
  "fst (job_view d s k) = d
   \<or> (\<exists>v. fst (job_view d s k) = d\<lparr>views := views d @ [v]\<rparr>
          \<and> first_view d (v_job_id v) (v_labour_id v) = None)"
  by (auto simp: job_view_def split: option.split)

lemma request_change_cases:
  "fst (request_change d s k f) = d
   \<or> (\<exists>c. fst (request_change d s k f) = d\<lparr>change_requests := change_requests d @ [c]\<rparr>)"
  by (auto simp: request_change_def split: option.split sum.split)

lemma decide_change_cases:
  "fst (decide_change d s cid f) = d
   \<or> fst (decide_change d s cid f) =
       update_change_request d cid (\<lambda>c. c\<lparr>c_status := ''rejected''\<rparr>)
   \<or> (\<exists>cr h. get_change_request d cid = Some cr \<and> get_job d (c_job_id cr) \<noteq> None
         \<and> (\<forall>j. j_id (h j) = j_id j \<and> j_status (h j) = ''assigned'')
         \<and> fst (decide_change d s cid f) =
             update_job
               (upsert_assignment
                  (update_change_request d cid (\<lambda>c. c\<lparr>c_status := ''accepted''\<rparr>))
                  (c_job_id cr) (c_labour_id cr))
               (c_job_id cr) h)"
proof (cases "current_user d s")
  case None
  then show ?thesis by (simp add: decide_change_def)
next
  case (Some u)
  show ?thesis
  proof (cases "u_role u = ''farmer''")
    case False
    with Some show ?thesis by (simp add: decide_change_def)
  next
    case True
    show ?thesis
    proof (cases "get_change_request d cid")
      case None
      then show ?thesis by (simp add: decide_change_missing[OF Some True])
    next
      case cr: (Some cr)
      show ?thesis
      proof (cases "f ''decision'' = Some ''accept''")
        case False
        then show ?thesis by (simp add: decide_change_other[where f = f, OF Some True cr])
      next
        case acc: True
        note unf = decide_change_accept_unfold[where f = f, OF Some True cr acc]
        show ?thesis
        proof (cases "get_job d (c_job_id cr)")
          case None
          then show ?thesis by (simp add: unf)
        next
          case (Some job)
          define h :: "job \<Rightarrow> job" where
            "h = (\<lambda>j. j\<lparr>j_days := (case c_requested_days cr of
                                 None \<Rightarrow> j_days j
                               | Some n \<Rightarrow> if n \<noteq> 0 then n else j_days j),
                   j_wage := (if truthy_str (c_requested_wage cr)
                              then c_requested_wage cr else j_wage j),
                   j_stay_info := (if truthy_str (c_requested_stay cr)
                                   then c_requested_stay cr else j_stay_info j),
                   j_status := ''assigned''\<rparr>)"
          have a: "get_job d (c_job_id cr) \<noteq> None" using Some by simp
          have b: "\<forall>j. j_id (h j) = j_id j \<and> j_status (h j) = ''assigned''"
            by (simp add: h_def)
          have c: "fst (decide_change d s cid f) =
                  update_job
                    (upsert_assignment
                       (update_change_request d cid (\<lambda>c. c\<lparr>c_status := ''accepted''\<rparr>))
                       (c_job_id cr) (c_labour_id cr))
                    (c_job_id cr) h"
            using Some by (simp add: unf h_def)
          from cr a b c have "\<exists>cr' h. get_change_request d cid = Some cr'
              \<and> get_job d (c_job_id cr') \<noteq> None
              \<and> (\<forall>j. j_id (h j) = j_id j \<and> j_status (h j) = ''assigned'')
              \<and> fst (decide_change d s cid f) =
                  update_job
                    (upsert_assignment
                       (update_change_request d cid (\<lambda>c. c\<lparr>c_status := ''accepted''\<rparr>))
                       (c_job_id cr') (c_labour_id cr'))
                    (c_job_id cr') h"
            by blast
          then show ?thesis by blast
        qed
      qed
    qed
  qed
qed

lemma assign_labour_cases:
  "fst (assign_labour d s k l) = d
   \<or> (get_job d k \<noteq> None
       \<and> fst (assign_labour d s k l) =
           update_job (upsert_assignment d k l) k (\<lambda>j. j\<lparr>j_status := ''assigned''\<rparr>))"
proof (cases "\<exists>u. current_user d s = Some u \<and> u_role u = ''farmer''")
  case True
  then obtain u where u: "current_user d s = Some u" "u_role u = ''farmer''" by blast
  show ?thesis
    by (cases "get_job d k") (simp_all add: assign_labour_unfold[OF u])
next
  case False
  then show ?thesis by (simp add: assign_labour_not_farmer)
qed

lemma confirm_assignment_cases:
  "fst (confirm_assignment d s aid) = d
   \<or> (\<exists>a. get_assignment d aid = Some a \<and> \<not> a_accepted_by_farmer a
         \<and> fst (confirm_assignment d s aid) =
             update_assignment d aid (\<lambda>a. a\<lparr>a_confirmed_by_labour := True\<rparr>))
   \<or> (\<exists>a. get_assignment d aid = Some a \<and> a_accepted_by_farmer a
         \<and> get_job d (a_job_id a) \<noteq> None
         \<and> fst (confirm_assignment d s aid) =
             update_job (update_assignment d aid (\<lambda>a. a\<lparr>a_confirmed_by_labour := True\<rparr>))
               (a_job_id a) (\<lambda>j. j\<lparr>j_status := ''confirmed''\<rparr>))"
proof (cases "(\<forall>u. current_user d s = Some u \<longrightarrow> u_role u \<noteq> ''labour'') \<or> get_assignment d aid = None")
  case True
  then show ?thesis by (simp add: confirm_assignment_no_change)
next
  case False
  then obtain u a where u: "current_user d s = Some u" "u_role u = ''labour''"
    and a: "get_assignment d aid = Some a" by auto
  show ?thesis
    by (cases "get_job d (a_job_id a)") (simp_all add: confirm_assignment_unfold[OF u a] a)
qed

lemma find_Some_mem: "find P xs = Some y \<Longrightarrow> y \<in> set xs"
  by (induction xs) (auto split: if_splits)

lemma get_job_None_iff: "get_job d k = None \<longleftrightarrow> k \<notin> set (map j_id (jobs d))"
  by (auto simp: get_job_def find_None_iff image_iff)

lemma first_assignment_None_iff:
  "first_assignment d j l = None \<longleftrightarrow> (j, l) \<notin> set (map (\<lambda>a. (a_job_id a, a_labour_id a)) (assignments d))"
  by (auto simp: first_assignment_def find_None_iff)

lemma first_view_None_iff:
  "first_view d j l = None \<longleftrightarrow> (j, l) \<notin> set (map (\<lambda>v. (v_job_id v, v_labour_id v)) (views d))"
  by (auto simp: first_view_def find_None_iff)

lemma upsert_assignments_cases:
  assumes "assignments e = assignments d"
  shows "(first_assignment d j l = None
          \<and> assignments (upsert_assignment e j l) = assignments d @
              [\<lparr>a_id = next_id (map a_id (assignments d)), a_job_id = j, a_labour_id = l,
                a_accepted_by_farmer = True, a_confirmed_by_labour = False\<rparr>])
       \<or> (\<exists>k. assignments (upsert_assignment e j l) =
              map (\<lambda>a. if a_id a = k then a\<lparr>a_accepted_by_farmer := True\<rparr> else a) (assignments d))"
proof -
  have fa: "first_assignment e j l = first_assignment d j l"
    using assms by (rule first_assignment_cong)
  show ?thesis
    by (cases "first_assignment d j l") (auto simp: assignments_upsert fa assms)
qed

text \<open>How one request changes the assignments table.\<close>

lemma handle_assignments:
  "assignments (fst (handle d r)) = assignments d
   \<or> (\<exists>j l. first_assignment d j l = None \<and> get_job d j \<noteq> None
         \<and> assignments (fst (handle d r)) = assignments d @
              [\<lparr>a_id = next_id (map a_id (assignments d)), a_job_id = j, a_labour_id = l,
                a_accepted_by_farmer = True, a_confirmed_by_labour = False\<rparr>])
   \<or> (\<exists>k. assignments (fst (handle d r)) =
          map (\<lambda>a. if a_id a = k then a\<lparr>a_accepted_by_farmer := True\<rparr> else a) (assignments d))
   \<or> (\<exists>k. assignments (fst (handle d r)) =
          map (\<lambda>a. if a_id a = k then a\<lparr>a_confirmed_by_labour := True\<rparr> else a) (assignments d))"
proof (cases r)
  case (FarmerRegister h m f)
  then show ?thesis
    using register_cases[of "''farmer''" "''farmer_register''" "''farmer_login''" d h m f]
    by (auto simp: farmer_register_def)
next
  case (LabourRegister h m f)
  then show ?thesis
    using register_cases[of "''labour''" "''labour_register''" "''labour_login''" d h m f]
    by (auto simp: labour_register_def)
next
  case (PostJob s m f)
  then show ?thesis using post_job_cases[of d s m f] by auto
next
  case (JobView s k)
  then show ?thesis using job_view_cases[of d s k] by auto
next
  case (RequestChange s k f)
  then show ?thesis using request_change_cases[of d s k f] by auto
next
  case (DecideChange s cid f)
  from decide_change_cases[of d s cid f]
  consider "fst (decide_change d s cid f) = d"
    | "fst (decide_change d s cid f) = update_change_request d cid (\<lambda>c. c\<lparr>c_status := ''rejected''\<rparr>)"
    | cr :: change_request and h where "get_job d (c_job_id cr) \<noteq> None"
        "fst (decide_change d s cid f) =
             update_job
               (upsert_assignment
                  (update_change_request d cid (\<lambda>c. c\<lparr>c_status := ''accepted''\<rparr>))
                  (c_job_id cr) (c_labour_id cr))
               (c_job_id cr) h"
    by blast
  then show ?thesis
  proof cases
    case 1
    then show ?thesis using DecideChange by simp
  next
    case 2
    then show ?thesis using DecideChange by simp
  next
    case 3
    have "assignments (update_change_request d cid (\<lambda>c. c\<lparr>c_status := ''accepted''\<rparr>)) = assignments d"
      by simp
    from upsert_assignments_cases[OF this, of "c_job_id cr" "c_labour_id cr"] 3
    show ?thesis using DecideChange by simp blast
  qed
next
  case (AssignLabour s k l)
  from assign_labour_cases[of d s k l]
  consider "fst (assign_labour d s k l) = d"
    | "get_job d k \<noteq> None"
      "fst (assign_labour d s k l) =
           update_job (upsert_assignment d k l) k (\<lambda>j. j\<lparr>j_status := ''assigned''\<rparr>)"
    by blast
  then show ?thesis
  proof cases
    case 1
    then show ?thesis using AssignLabour by simp
  next
    case 2
    from upsert_assignments_cases[OF refl, of d k l] 2
    show ?thesis using AssignLabour by simp blast
  qed
next
  case (ConfirmAssignment s aid)
  then show ?thesis using confirm_assignment_cases[of d s aid] by auto
qed

text \<open>How one request changes the jobs table.\<close>

lemma other_jobs:
  assumes "\<forall>s x. r \<noteq> ConfirmAssignment s x"
  shows "jobs (fst (handle d r)) = jobs d
   \<or> (\<exists>j. jobs (fst (handle d r)) = jobs d @ [j] \<and> j_status j = ''open'')
   \<or> (\<exists>k h. jobs (fst (handle d r)) = map (\<lambda>j. if j_id j = k then h j else j) (jobs d)
         \<and> (\<forall>j. j_id (h j) = j_id j \<and> j_status (h j) = ''assigned''))"
proof (cases r)
  case (FarmerRegister h m f)
  then show ?thesis
    using register_cases[of "''farmer''" "''farmer_register''" "''farmer_login''" d h m f]
    by (auto simp: farmer_register_def)
next
  case (LabourRegister h m f)
  then show ?thesis
    using register_cases[of "''labour''" "''labour_register''" "''labour_login''" d h m f]
    by (auto simp: labour_register_def)
next
  case (PostJob s m f)
  then show ?thesis using post_job_cases[of d s m f] by auto
next
  case (JobView s k)
  then show ?thesis using job_view_cases[of d s k] by auto
next
  case (RequestChange s k f)
  then show ?thesis using request_change_cases[of d s k f] by auto
next
  case (DecideChange s cid f)
  from decide_change_cases[of d s cid f]
  consider "fst (decide_change d s cid f) = d"
    | "fst (decide_change d s cid f) = update_change_request d cid (\<lambda>c. c\<lparr>c_status := ''rejected''\<rparr>)"
    | cr :: change_request and h where "\<forall>j. j_id (h j) = j_id j \<and> j_status (h j) = ''assigned''"
        "fst (decide_change d s cid f) =
             update_job
               (upsert_assignment
                  (update_change_request d cid (\<lambda>c. c\<lparr>c_status := ''accepted''\<rparr>))
                  (c_job_id cr) (c_labour_id cr))
               (c_job_id cr) h"
    by blast
  then show ?thesis
  proof cases
    case 1
    then show ?thesis using DecideChange by simp
  next
    case 2
    then show ?thesis using DecideChange by simp
  next
    case 3
    then have "jobs (fst (handle d r)) = map (\<lambda>j. if j_id j = c_job_id cr then h j else j) (jobs d)"
      using DecideChange by simp
    with 3(1) show ?thesis by blast
  qed
next
  case (AssignLabour s k l)
  from assign_labour_cases[of d s k l]
  consider "fst (assign_labour d s k l) = d"
    | "fst (assign_labour d s k l) =
           update_job (upsert_assignment d k l) k (\<lambda>j. j\<lparr>j_status := ''assigned''\<rparr>)"
    by blast
  then show ?thesis
  proof cases
    case 1
    then show ?thesis using AssignLabour by simp
  next
    case 2
    then have "jobs (fst (handle d r)) =
        map (\<lambda>j. if j_id j = k then (\<lambda>j. j\<lparr>j_status := ''assigned''\<rparr>) j else j) (jobs d)"
      using AssignLabour by simp
    moreover have "\<forall>j::job. j_id (j\<lparr>j_status := ''assigned''\<rparr>) = j_id j
        \<and> j_status (j\<lparr>j_status := ''assigned''\<rparr>) = ''assigned''"
      by simp
    ultimately show ?thesis by blast
  qed
next
  case (ConfirmAssignment s aid)
  then show ?thesis using assms by simp
qed

lemma confirm_jobs:
  "jobs (fst (confirm_assignment d s aid)) = jobs d
   \<or> (\<exists>a. get_assignment d aid = Some a
         \<and> jobs (fst (confirm_assignment d s aid)) =
              map (\<lambda>j. if j_id j = a_job_id a then j\<lparr>j_status := ''confirmed''\<rparr> else j) (jobs d)
         \<and> a_accepted_by_farmer a
         \<and> a\<lparr>a_confirmed_by_labour := True\<rparr> \<in> set (assignments (fst (confirm_assignment d s aid))))"
proof -
  from confirm_assignment_cases[of d s aid]
  consider "fst (confirm_assignment d s aid) = d"
    | "fst (confirm_assignment d s aid) =
             update_assignment d aid (\<lambda>a. a\<lparr>a_confirmed_by_labour := True\<rparr>)"
    | a where "get_assignment d aid = Some a" "a_accepted_by_farmer a"
        "fst (confirm_assignment d s aid) =
             update_job (update_assignment d aid (\<lambda>a. a\<lparr>a_confirmed_by_labour := True\<rparr>))
               (a_job_id a) (\<lambda>j. j\<lparr>j_status := ''confirmed''\<rparr>)"
    by blast
  then show ?thesis
  proof cases
    case 1
    then show ?thesis by simp
  next
    case 2
    then show ?thesis by simp
  next
    case 3
    have mem: "a \<in> set (assignments d)"
      using 3(1) unfolding get_assignment_def by (rule find_Some_mem)
    have aid: "a_id a = aid" using 3(1) by (rule get_assignment_id)
    have "a\<lparr>a_confirmed_by_labour := True\<rparr> \<in> set (assignments (fst (confirm_assignment d s aid)))"
      using mem aid 3(3) by (auto simp: image_iff intro!: bexI[of _ a])
    moreover have "jobs (fst (confirm_assignment d s aid)) =
        map (\<lambda>j. if j_id j = a_job_id a then j\<lparr>j_status := ''confirmed''\<rparr> else j) (jobs d)"
      using 3(3) by simp
    ultimately show ?thesis using 3(1,2) by blast
  qed
qed

lemma handle_jobs:
  "jobs (fst (handle d r)) = jobs d
   \<or> (\<exists>j. jobs (fst (handle d r)) = jobs d @ [j] \<and> j_status j = ''open'')
   \<or> (\<exists>k h. jobs (fst (handle d r)) = map (\<lambda>j. if j_id j = k then h j else j) (jobs d)
         \<and> (\<forall>j. j_id (h j) = j_id j \<and> j_status (h j) = ''assigned''))
   \<or> (\<exists>k a. jobs (fst (handle d r)) =
              map (\<lambda>j. if j_id j = k then j\<lparr>j_status := ''confirmed''\<rparr> else j) (jobs d)
         \<and> a \<in> set (assignments (fst (handle d r))) \<and> a_job_id a = k
         \<and> a_accepted_by_farmer a \<and> a_confirmed_by_labour a)"
proof (cases "\<exists>s x. r = ConfirmAssignment s x")
  case False
  then show ?thesis using other_jobs[of r d] by blast
next
  case True
  then obtain s aid where r: "r = ConfirmAssignment s aid" by blast
  from confirm_jobs[of d s aid] show ?thesis
  proof (elim disjE exE conjE)
    assume "jobs (fst (confirm_assignment d s aid)) = jobs d"
    then show ?thesis by (simp add: r)
  next
    fix a
    assume j: "jobs (fst (confirm_assignment d s aid)) =
              map (\<lambda>j. if j_id j = a_job_id a then j\<lparr>j_status := ''confirmed''\<rparr> else j) (jobs d)"
      and f: "a_accepted_by_farmer a"
      and m: "a\<lparr>a_confirmed_by_labour := True\<rparr> \<in> set (assignments (fst (confirm_assignment d s aid)))"
    show ?thesis
      apply (intro disjI2)
      apply (rule exI[of _ "a_job_id a"])
      apply (rule exI[of _ "a\<lparr>a_confirmed_by_labour := True\<rparr>"])
      using j f m by (simp add: r)
  qed
qed

text \<open>How one request changes the views table.\<close>

lemma handle_views:
  "views (fst (handle d r)) = views d
   \<or> (\<exists>v. views (fst (handle d r)) = views d @ [v]
         \<and> first_view d (v_job_id v) (v_labour_id v) = None)"
proof (cases r)
  case (FarmerRegister h m f)
  then show ?thesis
    using register_cases[of "''farmer''" "''farmer_register''" "''farmer_login''" d h m f]
    by (auto simp: farmer_register_def)
next
  case (LabourRegister h m f)
  then show ?thesis
    using register_cases[of "''labour''" "''labour_register''" "''labour_login''" d h m f]
    by (auto simp: labour_register_def)
next
  case (PostJob s m f)
  then show ?thesis using post_job_cases[of d s m f] by auto
next
  case (JobView s k)
  then show ?thesis using job_view_cases[of d s k] by auto
next
  case (RequestChange s k f)
  then show ?thesis using request_change_cases[of d s k f] by auto
next
  case (DecideChange s cid f)
  then show ?thesis using decide_change_cases[of d s cid f] by auto
next
  case (AssignLabour s k l)
  then show ?thesis using assign_labour_cases[of d s k l] by auto
next
  case (ConfirmAssignment s aid)
  then show ?thesis using confirm_assignment_cases[of d s aid] by auto
qed

section \<open>Invariants of the reachable states\<close>

lemma reachable_run: "reachable d \<Longrightarrow> reachable (run d rs)"
  by (induction rs arbitrary: d) (auto intro: reachable.step)

lemma map_j_id_update:
  assumes "\<And>j. j_id (h j) = j_id j"
  shows "map j_id (map (\<lambda>j. if j_id j = k then h j else j) xs) = map j_id xs"
  by (induction xs) (simp_all add: assms)

lemma jobs_kept: "set (map j_id (jobs d)) \<subseteq> set (map j_id (jobs (fst (handle d r))))"
proof -
  consider "jobs (fst (handle d r)) = jobs d"
    | j where "jobs (fst (handle d r)) = jobs d @ [j]"
    | k h where "jobs (fst (handle d r)) = map (\<lambda>j. if j_id j = k then h j else j) (jobs d)"
        "\<forall>j. j_id (h j) = j_id j"
    | k where "jobs (fst (handle d r)) =
        map (\<lambda>j. if j_id j = k then j\<lparr>j_status := ''confirmed''\<rparr> else j) (jobs d)"
    using handle_jobs[of d r] by blast
  then show ?thesis
  proof cases
    case 1
    then show ?thesis by simp
  next
    case 2
    then show ?thesis by auto
  next
    case 3
    have "map j_id (jobs (fst (handle d r))) = map j_id (jobs d)"
      unfolding 3(1) by (rule map_j_id_update) (simp add: 3(2))
    then show ?thesis by simp
  next
    case 4
    have "map j_id (jobs (fst (handle d r))) = map j_id (jobs d)"
      unfolding 4 by (rule map_j_id_update) simp
    then show ?thesis by simp
  qed
qed

lemma reachable_accepted:
  "reachable d \<Longrightarrow> \<forall>a\<in>set (assignments d). a_accepted_by_farmer a"
proof (induction rule: reachable.induct)
  case init
  then show ?case by (simp add: empty_db_def)
next
  case (step d r)
  then show ?case using handle_assignments[of d r] by auto
qed

lemma map_pair_update:
  "map (\<lambda>a. (a_job_id a, a_labour_id a))
     (map (\<lambda>a. if a_id a = k then a\<lparr>a_accepted_by_farmer := True\<rparr> else a) xs)
     = map (\<lambda>a. (a_job_id a, a_labour_id a)) xs"
  "map (\<lambda>a. (a_job_id a, a_labour_id a))
     (map (\<lambda>a. if a_id a = k then a\<lparr>a_confirmed_by_labour := True\<rparr> else a) xs)
     = map (\<lambda>a. (a_job_id a, a_labour_id a)) xs"
  by (induction xs) auto

lemma handle_assignment_pairs:
  "map (\<lambda>a. (a_job_id a, a_labour_id a)) (assignments (fst (handle d r))) =
     map (\<lambda>a. (a_job_id a, a_labour_id a)) (assignments d)
   \<or> (\<exists>j l. first_assignment d j l = None \<and> get_job d j \<noteq> None
         \<and> map (\<lambda>a. (a_job_id a, a_labour_id a)) (assignments (fst (handle d r))) =
             map (\<lambda>a. (a_job_id a, a_labour_id a)) (assignments d) @ [(j, l)])"
proof -
  consider "assignments (fst (handle d r)) = assignments d"
    | j l where "first_assignment d j l = None" "get_job d j \<noteq> None"
        "assignments (fst (handle d r)) = assignments d @
              [\<lparr>a_id = next_id (map a_id (assignments d)), a_job_id = j, a_labour_id = l,
                a_accepted_by_farmer = True, a_confirmed_by_labour = False\<rparr>]"
    | k where "assignments (fst (handle d r)) =
          map (\<lambda>a. if a_id a = k then a\<lparr>a_accepted_by_farmer := True\<rparr> else a) (assignments d)"
    | k where "assignments (fst (handle d r)) =
          map (\<lambda>a. if a_id a = k then a\<lparr>a_confirmed_by_labour := True\<rparr> else a) (assignments d)"
    using handle_assignments[of d r] by blast
  then show ?thesis
  proof cases
    case 1
    then show ?thesis by simp
  next
    case 2
    have "map (\<lambda>a. (a_job_id a, a_labour_id a)) (assignments (fst (handle d r))) =
             map (\<lambda>a. (a_job_id a, a_labour_id a)) (assignments d) @ [(j, l)]"
      unfolding 2(3) by simp
    with 2(1,2) show ?thesis by blast
  next
    case 3
    show ?thesis unfolding 3 map_pair_update by simp
  next
    case 4
    show ?thesis unfolding 4 map_pair_update by simp
  qed
qed

lemma reachable_assignment_pairs:
  "reachable d \<Longrightarrow> distinct (map (\<lambda>a. (a_job_id a, a_labour_id a)) (assignments d))"
proof (induction rule: reachable.induct)
  case init
  then show ?case by (simp add: empty_db_def)
next
  case (step d r)
  from handle_assignment_pairs[of d r] show ?case
  proof (elim disjE exE conjE)
    assume "map (\<lambda>a. (a_job_id a, a_labour_id a)) (assignments (fst (handle d r))) =
     map (\<lambda>a. (a_job_id a, a_labour_id a)) (assignments d)"
    then show ?thesis using step.IH by simp
  next
    fix j l
    assume n: "first_assignment d j l = None"
      and e: "map (\<lambda>a. (a_job_id a, a_labour_id a)) (assignments (fst (handle d r))) =
             map (\<lambda>a. (a_job_id a, a_labour_id a)) (assignments d) @ [(j, l)]"
    from n have "(j, l) \<notin> set (map (\<lambda>a. (a_job_id a, a_labour_id a)) (assignments d))"
      by (simp add: first_assignment_None_iff)
    then show ?thesis using step.IH unfolding e by simp
  qed
qed

lemma reachable_view_pairs:
  "reachable d \<Longrightarrow> distinct (map (\<lambda>v. (v_job_id v, v_labour_id v)) (views d))"
proof (induction rule: reachable.induct)
  case init
  then show ?case by (simp add: empty_db_def)
next
  case (step d r)
  from handle_views[of d r] show ?case
  proof (elim disjE exE conjE)
    assume "views (fst (handle d r)) = views d"
    then show ?thesis using step.IH by simp
  next
    fix v
    assume e: "views (fst (handle d r)) = views d @ [v]"
      and n: "first_view d (v_job_id v) (v_labour_id v) = None"
    from n have "(v_job_id v, v_labour_id v) \<notin> set (map (\<lambda>v. (v_job_id v, v_labour_id v)) (views d))"
      by (simp add: first_view_None_iff)
    then show ?thesis using step.IH unfolding e by simp
  qed
qed

lemma reachable_assignment_job:
  "reachable d \<Longrightarrow> \<forall>a\<in>set (assignments d). get_job d (a_job_id a) \<noteq> None"
proof (induction rule: reachable.induct)
  case init
  then show ?case by (simp add: empty_db_def)
next
  case (step d r)
  have keep: "get_job (fst (handle d r)) k \<noteq> None" if "get_job d k \<noteq> None" for k
    using that jobs_kept[of d r] unfolding get_job_None_iff by blast
  have pairs: "\<forall>p\<in>set (map (\<lambda>a. (a_job_id a, a_labour_id a)) (assignments d)).
      get_job d (fst p) \<noteq> None"
    using step.IH by simp
  have "\<forall>p\<in>set (map (\<lambda>a. (a_job_id a, a_labour_id a)) (assignments (fst (handle d r)))).
      get_job d (fst p) \<noteq> None"
    using handle_assignment_pairs[of d r]
  proof (elim disjE exE conjE)
    assume "map (\<lambda>a. (a_job_id a, a_labour_id a)) (assignments (fst (handle d r))) =
     map (\<lambda>a. (a_job_id a, a_labour_id a)) (assignments d)"
    then show ?thesis using pairs by simp
  next
    fix j l
    assume g: "get_job d j \<noteq> None"
      and e: "map (\<lambda>a. (a_job_id a, a_labour_id a)) (assignments (fst (handle d r))) =
             map (\<lambda>a. (a_job_id a, a_labour_id a)) (assignments d) @ [(j, l)]"
    show ?thesis unfolding e using pairs g by simp
  qed
  then have "\<forall>a\<in>set (assignments (fst (handle d r))). get_job d (a_job_id a) \<noteq> None"
    by simp
  then show ?case using keep by blast
qed

lemma reachable_status:
  "reachable d \<Longrightarrow> \<forall>j\<in>set (jobs d). j_status j \<in> {''open'', ''assigned'', ''confirmed''}"
proof (induction rule: reachable.induct)
  case init
  then show ?case by (simp add: empty_db_def)
next
  case (step d r)
  from handle_jobs[of d r] show ?case
  proof (elim disjE exE conjE)
    assume "jobs (fst (handle d r)) = jobs d"
    then show ?thesis using step.IH by simp
  next
    fix j assume "jobs (fst (handle d r)) = jobs d @ [j]" "j_status j = ''open''"
    then show ?thesis using step.IH by simp
  next
    fix k h
    assume e: "jobs (fst (handle d r)) = map (\<lambda>j. if j_id j = k then h j else j) (jobs d)"
      and h: "\<forall>j. j_id (h j) = j_id j \<and> j_status (h j) = ''assigned''"
    show ?thesis unfolding e using step.IH h by auto
  next
    fix k
    assume e: "jobs (fst (handle d r)) =
        map (\<lambda>j. if j_id j = k then j\<lparr>j_status := ''confirmed''\<rparr> else j) (jobs d)"
    show ?thesis unfolding e using step.IH by auto
  qed
qed

lemma flags_kept:
  assumes "a \<in> set (assignments d)"
  shows "\<exists>b\<in>set (assignments (fst (handle d r))). a_job_id b = a_job_id a
            \<and> (a_accepted_by_farmer a \<longrightarrow> a_accepted_by_farmer b)
            \<and> (a_confirmed_by_labour a \<longrightarrow> a_confirmed_by_labour b)"
proof -
  consider "assignments (fst (handle d r)) = assignments d"
    | x where "assignments (fst (handle d r)) = assignments d @ [x]"
    | k where "assignments (fst (handle d r)) =
          map (\<lambda>a. if a_id a = k then a\<lparr>a_accepted_by_farmer := True\<rparr> else a) (assignments d)"
    | k where "assignments (fst (handle d r)) =
          map (\<lambda>a. if a_id a = k then a\<lparr>a_confirmed_by_labour := True\<rparr> else a) (assignments d)"
    using handle_assignments[of d r] by blast
  then show ?thesis
  proof cases
    case 1
    then show ?thesis using assms by auto
  next
    case 2
    then show ?thesis using assms by auto
  next
    case 3
    show ?thesis
      unfolding 3
      by (rule bexI[of _ "(\<lambda>a. if a_id a = k then a\<lparr>a_accepted_by_farmer := True\<rparr> else a) a"])
         (use assms in auto)
  next
    case 4
    show ?thesis
      unfolding 4
      by (rule bexI[of _ "(\<lambda>a. if a_id a = k then a\<lparr>a_confirmed_by_labour := True\<rparr> else a) a"])
         (use assms in auto)
  qed
qed

lemma reachable_confirmed:
  "reachable d \<Longrightarrow>
     \<forall>j\<in>set (jobs d). j_status j = ''confirmed'' \<longrightarrow>
       (\<exists>a\<in>set (assignments d). a_job_id a = j_id j
           \<and> a_accepted_by_farmer a \<and> a_confirmed_by_labour a)"
proof (induction rule: reachable.induct)
  case init
  then show ?case by (simp add: empty_db_def)
next
  case (step d r)
  let ?d = "fst (handle d r)"
  have old: "\<exists>a\<in>set (assignments ?d). a_job_id a = j_id j
           \<and> a_accepted_by_farmer a \<and> a_confirmed_by_labour a"
    if "j \<in> set (jobs d)" "j_status j = ''confirmed''" for j
  proof -
    from step.IH that obtain a where "a \<in> set (assignments d)" "a_job_id a = j_id j"
      "a_accepted_by_farmer a" "a_confirmed_by_labour a" by blast
    with flags_kept[of a d r] show ?thesis by auto
  qed
  consider "jobs ?d = jobs d"
    | j where "jobs ?d = jobs d @ [j]" "j_status j = ''open''"
    | k h where "jobs ?d = map (\<lambda>j. if j_id j = k then h j else j) (jobs d)"
        "\<forall>j. j_id (h j) = j_id j \<and> j_status (h j) = ''assigned''"
    | k a where "jobs ?d = map (\<lambda>j. if j_id j = k then j\<lparr>j_status := ''confirmed''\<rparr> else j) (jobs d)"
        "a \<in> set (assignments ?d)" "a_job_id a = k" "a_accepted_by_farmer a" "a_confirmed_by_labour a"
    using handle_jobs[of d r] by blast
  then show ?case
  proof cases
    case 1
    then show ?thesis using old by auto
  next
    case 2
    then show ?thesis using old by auto
  next
    case 3
    show ?thesis
    proof (intro ballI impI)
      fix j assume j: "j \<in> set (jobs ?d)" "j_status j = ''confirmed''"
      then obtain j0 where j0: "j0 \<in> set (jobs d)" "j = (if j_id j0 = k then h j0 else j0)"
        unfolding 3(1) by auto
      with j 3(2) have "j = j0" by (auto split: if_splits)
      with old[of j0] j j0 show "\<exists>a\<in>set (assignments ?d). a_job_id a = j_id j
           \<and> a_accepted_by_farmer a \<and> a_confirmed_by_labour a" by auto
    qed
  next
    case 4
    show ?thesis
    proof (intro ballI impI)
      fix j assume j: "j \<in> set (jobs ?d)" "j_status j = ''confirmed''"
      then obtain j0 where j0: "j0 \<in> set (jobs d)"
        "j = (if j_id j0 = k then j0\<lparr>j_status := ''confirmed''\<rparr> else j0)"
        unfolding 4(1) by auto
      show "\<exists>a\<in>set (assignments ?d). a_job_id a = j_id j
           \<and> a_accepted_by_farmer a \<and> a_confirmed_by_labour a"
      proof (cases "j_id j0 = k")
        case True
        then have "j_id j = a_job_id a" using j0 4(3) by simp
        with 4(2,4,5) show ?thesis by (intro bexI[of _ a]) simp_all
      next
        case False
        then have "j = j0" using j0 by simp
        with old[of j0] j j0 show ?thesis by auto
      qed
    qed
  qed
qed

lemma distinct_filter_key:
  "distinct (map g xs) \<Longrightarrow> length (filter (\<lambda>x. g x = y) xs) \<le> 1"
proof (induction xs)
  case Nil
  then show ?case by simp
next
  case (Cons x xs)
  show ?case
  proof (cases "g x = y")
    case True
    with Cons.prems have "filter (\<lambda>x. g x = y) xs = []"
      by (auto simp: filter_empty_conv image_iff)
    with True show ?thesis by simp
  next
    case False
    with Cons show ?thesis by simp
  qed
qed

section \<open>One assignment for each job and labourer\<close>

text \<open>
  C4. In every state reached from the empty database by any sequence of requests, at
  most one assignment exists for a (job, labourer) pair. Both routes that create
  assignments look the pair up first: when an assignment for the pair exists, direct
  assignment and acceptance of a change request for the pair leave the list of pairs as it
  is (they set the flag of the existing row or, on an error, change nothing).
\<close>

theorem one_assignment_per_pair:
  assumes "reachable d"
  shows "(\<forall>j l. length (filter (\<lambda>a. (a_job_id a, a_labour_id a) = (j, l)) (assignments d)) \<le> 1)
       \<and> (\<forall>s j l. first_assignment d j l \<noteq> None \<longrightarrow>
             map (\<lambda>a. (a_job_id a, a_labour_id a)) (assignments (fst (assign_labour d s j l))) =
             map (\<lambda>a. (a_job_id a, a_labour_id a)) (assignments d))
       \<and> (\<forall>s cid f cr. get_change_request d cid = Some cr
               \<and> first_assignment d (c_job_id cr) (c_labour_id cr) \<noteq> None \<longrightarrow>
             map (\<lambda>a. (a_job_id a, a_labour_id a)) (assignments (fst (decide_change d s cid f))) =
             map (\<lambda>a. (a_job_id a, a_labour_id a)) (assignments d))"
proof (intro conjI allI impI)
  fix j l
  show "length (filter (\<lambda>a. (a_job_id a, a_labour_id a) = (j, l)) (assignments d)) \<le> 1"
    using reachable_assignment_pairs[OF assms] by (rule distinct_filter_key)
next
  fix s j l
  assume ex: "first_assignment d j l \<noteq> None"
  from handle_assignment_pairs[of d "AssignLabour s j l"]
  show "map (\<lambda>a. (a_job_id a, a_labour_id a)) (assignments (fst (assign_labour d s j l))) =
        map (\<lambda>a. (a_job_id a, a_labour_id a)) (assignments d)"
  proof (elim disjE exE conjE)
    assume "map (\<lambda>a. (a_job_id a, a_labour_id a)) (assignments (fst (handle d (AssignLabour s j l)))) =
        map (\<lambda>a. (a_job_id a, a_labour_id a)) (assignments d)"
    then show ?thesis by simp
  next
    fix j' l'
    assume n: "first_assignment d j' l' = None"
      and e: "map (\<lambda>a. (a_job_id a, a_labour_id a)) (assignments (fst (handle d (AssignLabour s j l)))) =
        map (\<lambda>a. (a_job_id a, a_labour_id a)) (assignments d) @ [(j', l')]"
    have "fst (assign_labour d s j l) \<noteq> d"
      using e by auto
    with assign_labour_cases[of d s j l]
    have "assignments (fst (assign_labour d s j l)) = assignments (upsert_assignment d j l)"
      by auto
    with ex have "map (\<lambda>a. (a_job_id a, a_labour_id a)) (assignments (fst (assign_labour d s j l))) =
        map (\<lambda>a. (a_job_id a, a_labour_id a)) (assignments d)"
      by (auto simp: assignments_upsert map_pair_update)
    then show ?thesis .
  qed
next
  fix s cid f cr
  assume a: "get_change_request d cid = Some cr
               \<and> first_assignment d (c_job_id cr) (c_labour_id cr) \<noteq> None"
  let ?e = "update_change_request d cid (\<lambda>c. c\<lparr>c_status := ''accepted''\<rparr>)"
  have fa: "first_assignment ?e (c_job_id cr) (c_labour_id cr) =
      first_assignment d (c_job_id cr) (c_labour_id cr)"
    by (rule first_assignment_cong) simp
  have up: "map (\<lambda>a. (a_job_id a, a_labour_id a))
        (assignments (upsert_assignment ?e (c_job_id cr) (c_labour_id cr))) =
      map (\<lambda>a. (a_job_id a, a_labour_id a)) (assignments d)"
    using a by (auto simp: assignments_upsert fa map_pair_update)
  from decide_change_cases[of d s cid f] a
  consider "fst (decide_change d s cid f) = d"
    | "fst (decide_change d s cid f) =
         update_change_request d cid (\<lambda>c. c\<lparr>c_status := ''rejected''\<rparr>)"
    | h where "fst (decide_change d s cid f) =
         update_job (upsert_assignment ?e (c_job_id cr) (c_labour_id cr)) (c_job_id cr) h"
    by auto
  then show "map (\<lambda>a. (a_job_id a, a_labour_id a)) (assignments (fst (decide_change d s cid f))) =
             map (\<lambda>a. (a_job_id a, a_labour_id a)) (assignments d)"
  proof cases
    case 1
    then show ?thesis by simp
  next
    case 2
    then show ?thesis by simp
  next
    case 3
    then show ?thesis using up by simp
  qed
qed

theorem one_assignment_per_pair_witness:
  "reachable (run empty_db accepted)
   \<and> length (filter (\<lambda>a. (a_job_id a, a_labour_id a) = (1, 2)) (assignments (run empty_db accepted))) \<le> 1
   \<and> map (\<lambda>a. (a_job_id a, a_labour_id a)) (assignments (run empty_db accepted)) = [(1, 2)]
   \<and> map (\<lambda>a. (a_job_id a, a_labour_id a))
       (assignments (fst (assign_labour (run empty_db accepted) farmer_F 1 2))) = [(1, 2)]"
proof -
  have r: "reachable (run empty_db accepted)"
    by (rule reachable_run) (rule reachable.init)
  note t = one_assignment_per_pair[OF r]
  have p: "map (\<lambda>a. (a_job_id a, a_labour_id a)) (assignments (run empty_db accepted)) = [(1, 2)]"
    by code_simp
  have f: "first_assignment (run empty_db accepted) 1 2 \<noteq> None"
    by code_simp
  have a: "length (filter (\<lambda>a. (a_job_id a, a_labour_id a) = (1, 2)) (assignments (run empty_db accepted))) \<le> 1"
    using t by blast
  have b: "map (\<lambda>a. (a_job_id a, a_labour_id a))
       (assignments (fst (assign_labour (run empty_db accepted) farmer_F 1 2))) =
       map (\<lambda>a. (a_job_id a, a_labour_id a)) (assignments (run empty_db accepted))"
    using t f by blast
  show ?thesis using r a p b by simp
qed

lemma current_user_cong: "users d = users e \<Longrightarrow> current_user d s = current_user e s"
  by (cases "s_user_id s") (simp_all add: current_user_def get_user_def)

lemma job_view_twice: "fst (job_view (fst (job_view d s j)) s j) = fst (job_view d s j)"
proof (cases "get_job d j")
  case None
  then show ?thesis by (simp add: job_view_def)
next
  case job: (Some job)
  show ?thesis
  proof (cases "current_user d s")
    case None
    then show ?thesis using job by (simp add: job_view_def)
  next
    case (Some u)
    show ?thesis
    proof (cases "u_role u = ''labour'' \<and> first_view d j (u_id u) = None")
      case False
      then show ?thesis using job Some by (auto simp: job_view_def)
    next
      case True
      let ?v = "\<lparr>v_id = next_id (map v_id (views d)), v_job_id = j,
                     v_labour_id = u_id u, v_seen = False\<rparr>"
      let ?e = "d\<lparr>views := views d @ [?v]\<rparr>"
      have e: "job_view d s j = (?e, Render ''job_view.html'' [])"
        using True job Some by (simp add: job_view_def)
      have "get_job ?e j = Some job" using job by (simp add: get_job_def)
      moreover have "current_user ?e s = current_user d s"
        by (rule current_user_cong) simp
      then have "current_user ?e s = Some u"
        using Some by simp
      moreover have "first_view ?e j (u_id u) = Some ?v"
        using True by (simp add: first_view_def find_append_new)
      ultimately have "job_view ?e s j = (?e, Render ''job_view.html'' [])"
        using True by (simp add: job_view_def)
      then show ?thesis by (simp add: e)
    qed
  qed
qed

section \<open>Recording a view\<close>

text \<open>
  C5. In every state reached from the empty database at most one view notification
  exists for a (job, labourer) pair. Viewing is idempotent: a second identical view
  changes nothing. A view by a user for whom a notification of the job exists changes
  nothing, and a labourer's first view of an existing job appends exactly one
  notification, for that pair.
\<close>

theorem view_recorded_once:
  assumes "reachable d"
  shows "(\<forall>j l. length (filter (\<lambda>v. (v_job_id v, v_labour_id v) = (j, l)) (views d)) \<le> 1)
       \<and> (\<forall>s j. fst (job_view (fst (job_view d s j)) s j) = fst (job_view d s j))
       \<and> (\<forall>s j u. current_user d s = Some u \<and> first_view d j (u_id u) \<noteq> None \<longrightarrow>
             fst (job_view d s j) = d)
       \<and> (\<forall>s j u. current_user d s = Some u \<and> u_role u = ''labour'' \<and> get_job d j \<noteq> None
               \<and> first_view d j (u_id u) = None \<longrightarrow>
             fst (job_view d s j) =
               d\<lparr>views := views d @
                   [\<lparr>v_id = next_id (map v_id (views d)), v_job_id = j,
                     v_labour_id = u_id u, v_seen = False\<rparr>]\<rparr>)"
proof (intro conjI allI impI)
  fix j l
  show "length (filter (\<lambda>v. (v_job_id v, v_labour_id v) = (j, l)) (views d)) \<le> 1"
    using reachable_view_pairs[OF assms] by (rule distinct_filter_key)
next
  fix s j
  show "fst (job_view (fst (job_view d s j)) s j) = fst (job_view d s j)"
    by (rule job_view_twice)
next
  fix s j u
  assume "current_user d s = Some u \<and> first_view d j (u_id u) \<noteq> None"
  then show "fst (job_view d s j) = d"
    by (auto simp: job_view_def split: option.split)
next
  fix s j u
  assume "current_user d s = Some u \<and> u_role u = ''labour'' \<and> get_job d j \<noteq> None
               \<and> first_view d j (u_id u) = None"
  then show "fst (job_view d s j) =
               d\<lparr>views := views d @
                   [\<lparr>v_id = next_id (map v_id (views d)), v_job_id = j,
                     v_labour_id = u_id u, v_seen = False\<rparr>]\<rparr>"
    by (auto simp: job_view_def split: option.split)
qed

theorem view_recorded_once_witness:
  "reachable (run empty_db posted)
   \<and> map (\<lambda>v. (v_job_id v, v_labour_id v)) (views (run empty_db posted)) = []
   \<and> map (\<lambda>v. (v_job_id v, v_labour_id v)) (views (fst (job_view (run empty_db posted) labour_L 1))) = [(1, 2)]
   \<and> fst (job_view (fst (job_view (run empty_db posted) labour_L 1)) labour_L 1) =
       fst (job_view (run empty_db posted) labour_L 1)
   \<and> length (filter (\<lambda>v. (v_job_id v, v_labour_id v) = (1, 2)) (views (run empty_db requested))) \<le> 1"
proof -
  have r: "reachable (run empty_db posted)"
    by (rule reachable_run) (rule reachable.init)
  have r2: "reachable (run empty_db requested)"
    by (rule reachable_run) (rule reachable.init)
  have a: "map (\<lambda>v. (v_job_id v, v_labour_id v)) (views (run empty_db posted)) = []"
    by code_simp
  have b: "map (\<lambda>v. (v_job_id v, v_labour_id v)) (views (fst (job_view (run empty_db posted) labour_L 1))) = [(1, 2)]"
    by code_simp
  have c: "fst (job_view (fst (job_view (run empty_db posted) labour_L 1)) labour_L 1) =
       fst (job_view (run empty_db posted) labour_L 1)"
    using view_recorded_once[OF r] by blast
  have e: "length (filter (\<lambda>v. (v_job_id v, v_labour_id v) = (1, 2)) (views (run empty_db requested))) \<le> 1"
    using view_recorded_once[OF r2] by blast
  show ?thesis using r a b c e by simp
qed

section \<open>The farmer's flag\<close>

text \<open>
  C9. In every state reached from the empty database every assignment has
  \<open>accepted_by_farmer = True\<close>, and its job exists. So when the labourer the assignment
  is for confirms it, the job's status afterwards is \<open>confirmed\<close>.
\<close>

theorem farmer_flag_always_set:
  assumes "reachable d"
  shows "(\<forall>a\<in>set (assignments d). a_accepted_by_farmer a)
       \<and> (\<forall>r. \<forall>a\<in>set (assignments (fst (handle d r))). a_accepted_by_farmer a)
       \<and> (\<forall>s u aid a. current_user d s = Some u \<and> u_role u = ''labour''
               \<and> get_assignment d aid = Some a \<and> a_labour_id a = u_id u \<longrightarrow>
             job_status (fst (confirm_assignment d s aid)) (a_job_id a) = Some ''confirmed'')"
proof (intro conjI allI impI)
  show "\<forall>a\<in>set (assignments d). a_accepted_by_farmer a"
    using assms by (rule reachable_accepted)
next
  fix r
  show "\<forall>a\<in>set (assignments (fst (handle d r))). a_accepted_by_farmer a"
    using reachable.step[OF assms] by (rule reachable_accepted)
next
  fix s u aid a
  assume h: "current_user d s = Some u \<and> u_role u = ''labour''
               \<and> get_assignment d aid = Some a \<and> a_labour_id a = u_id u"
  then have mem: "a \<in> set (assignments d)"
    unfolding get_assignment_def by (auto dest: find_Some_mem)
  then have acc: "a_accepted_by_farmer a"
    using reachable_accepted[OF assms] by blast
  from mem obtain job where job: "get_job d (a_job_id a) = Some job"
    using reachable_assignment_job[OF assms] by blast
  have "fst (confirm_assignment d s aid) =
      update_job (update_assignment d aid (\<lambda>a. a\<lparr>a_confirmed_by_labour := True\<rparr>))
        (a_job_id a) (\<lambda>j. j\<lparr>j_status := ''confirmed''\<rparr>)"
    using h acc job confirm_assignment_unfold[of d s u aid a] by simp
  moreover have "get_job (update_assignment d aid (\<lambda>a. a\<lparr>a_confirmed_by_labour := True\<rparr>)) (a_job_id a)
      = Some job"
    using job by (simp add: get_job_def)
  ultimately show "job_status (fst (confirm_assignment d s aid)) (a_job_id a) = Some ''confirmed''"
    using get_job_id[OF job] by (simp add: job_status_def get_job_update_job)
qed

theorem farmer_flag_always_set_witness:
  "reachable (run empty_db accepted)
   \<and> map a_accepted_by_farmer (assignments (run empty_db accepted)) = [True]
   \<and> current_user (run empty_db accepted) labour_L =
       Some \<lparr>u_id = 2, u_name = ''L'', u_phone = ''200'', u_password_hash = ''pbkdf2:pl'',
             u_role = ''labour''\<rparr>
   \<and> get_assignment (run empty_db accepted) 1 =
       Some \<lparr>a_id = 1, a_job_id = 1, a_labour_id = 2, a_accepted_by_farmer = True,
             a_confirmed_by_labour = False\<rparr>
   \<and> job_status (run empty_db accepted) 1 = Some ''assigned''
   \<and> job_status (fst (confirm_assignment (run empty_db accepted) labour_L 1)) 1 = Some ''confirmed''"
proof -
  have r: "reachable (run empty_db accepted)"
    by (rule reachable_run) (rule reachable.init)
  have l: "map a_accepted_by_farmer (assignments (run empty_db accepted)) = [True]"
    by code_simp
  have u: "current_user (run empty_db accepted) labour_L =
       Some \<lparr>u_id = 2, u_name = ''L'', u_phone = ''200'', u_password_hash = ''pbkdf2:pl'',
             u_role = ''labour''\<rparr>"
    by code_simp
  have a: "get_assignment (run empty_db accepted) 1 =
       Some \<lparr>a_id = 1, a_job_id = 1, a_labour_id = 2, a_accepted_by_farmer = True,
             a_confirmed_by_labour = False\<rparr>"
    by code_simp
  have j: "job_status (run empty_db accepted) 1 = Some ''assigned''"
    by code_simp
  have c: "job_status (fst (confirm_assignment (run empty_db accepted) labour_L 1)) 1 = Some ''confirmed''"
    using farmer_flag_always_set[OF r] u a by fastforce
  show ?thesis using r l u a j c by simp
qed

section \<open>The status of a job across one request\<close>

lemma job_status_cong: "jobs d = jobs e \<Longrightarrow> job_status d k = job_status e k"
  by (simp add: job_status_def get_job_def)

lemma job_status_append_old:
  assumes "jobs e = jobs d @ [j]" and "job_status d k = Some st"
  shows "job_status e k = Some st"
proof -
  from assms(2) obtain y where y: "find (\<lambda>j. j_id j = k) (jobs d) = Some y" "j_status y = st"
    by (auto simp: job_status_def get_job_def)
  then show ?thesis
    by (simp add: job_status_def get_job_def assms(1) find_append_old)
qed

lemma job_status_append_new:
  assumes "jobs e = jobs d @ [j]" and "job_status e k = Some st" and "st \<noteq> j_status j"
  shows "job_status d k = Some st"
proof (cases "find (\<lambda>j. j_id j = k) (jobs d)")
  case None
  then show ?thesis
    using assms by (auto simp: job_status_def get_job_def find_append_new split: if_splits)
next
  case (Some y)
  then show ?thesis
    using assms by (simp add: job_status_def get_job_def find_append_old)
qed

lemma job_status_map:
  assumes "jobs e = map (\<lambda>j. if j_id j = k0 then h j else j) (jobs d)"
    and "\<And>j. j_id (h j) = j_id j"
  shows "job_status e k =
           map_option (\<lambda>j. if j_id j = k0 then j_status (h j) else j_status j) (get_job d k)"
proof -
  have "find (\<lambda>j. j_id j = k) (map (\<lambda>j. if j_id j = k0 then h j else j) (jobs d)) =
      map_option (\<lambda>j. if j_id j = k0 then h j else j) (find (\<lambda>j. j_id j = k) (jobs d))"
    by (rule find_map_pres) (simp add: assms(2))
  then show ?thesis
    by (cases "find (\<lambda>j. j_id j = k) (jobs d)") (simp_all add: job_status_def get_job_def assms(1))
qed

lemma status_step:
  assumes "job_status d k = Some st"
  shows "job_status (fst (handle d r)) k = Some st
       \<or> job_status (fst (handle d r)) k = Some ''assigned''
       \<or> job_status (fst (handle d r)) k = Some ''confirmed''"
proof -
  from assms obtain y where y: "get_job d k = Some y" "j_status y = st"
    by (auto simp: job_status_def)
  consider "jobs (fst (handle d r)) = jobs d"
    | j where "jobs (fst (handle d r)) = jobs d @ [j]"
    | k0 h where "jobs (fst (handle d r)) = map (\<lambda>j. if j_id j = k0 then h j else j) (jobs d)"
        "\<forall>j. j_id (h j) = j_id j \<and> j_status (h j) = ''assigned''"
    | k0 where "jobs (fst (handle d r)) =
        map (\<lambda>j. if j_id j = k0 then j\<lparr>j_status := ''confirmed''\<rparr> else j) (jobs d)"
    using handle_jobs[of d r] by blast
  then show ?thesis
  proof cases
    case 1
    then have "job_status (fst (handle d r)) k = job_status d k" by (rule job_status_cong)
    then show ?thesis using assms by simp
  next
    case 2
    then have "job_status (fst (handle d r)) k = Some st"
      using assms by (rule job_status_append_old)
    then show ?thesis by simp
  next
    case 3
    have "job_status (fst (handle d r)) k =
        map_option (\<lambda>j. if j_id j = k0 then j_status (h j) else j_status j) (get_job d k)"
      using 3(1) by (rule job_status_map) (simp add: 3(2))
    then have "job_status (fst (handle d r)) k =
        Some (if j_id y = k0 then ''assigned'' else st)"
      using y 3(2) by simp
    then show ?thesis by (cases "j_id y = k0") simp_all
  next
    case 4
    have "job_status (fst (handle d r)) k =
        map_option (\<lambda>j. if j_id j = k0 then j_status (j\<lparr>j_status := ''confirmed''\<rparr>) else j_status j)
          (get_job d k)"
      using 4 by (rule job_status_map) simp
    then have "job_status (fst (handle d r)) k =
        Some (if j_id y = k0 then ''confirmed'' else st)"
      using y by simp
    then show ?thesis by (cases "j_id y = k0") simp_all
  qed
qed

lemma other_confirmed:
  assumes "\<forall>s x. r \<noteq> ConfirmAssignment s x"
    and "job_status (fst (handle d r)) k = Some ''confirmed''"
  shows "job_status d k = Some ''confirmed''"
proof -
  consider "jobs (fst (handle d r)) = jobs d"
    | j where "jobs (fst (handle d r)) = jobs d @ [j]" "j_status j = ''open''"
    | k0 h where "jobs (fst (handle d r)) = map (\<lambda>j. if j_id j = k0 then h j else j) (jobs d)"
        "\<forall>j. j_id (h j) = j_id j \<and> j_status (h j) = ''assigned''"
    using other_jobs[OF assms(1), of d] by blast
  then show ?thesis
  proof cases
    case 1
    then have "job_status (fst (handle d r)) k = job_status d k" by (rule job_status_cong)
    then show ?thesis using assms(2) by simp
  next
    case 2
    have "''confirmed'' \<noteq> j_status j" using 2(2) by simp
    with 2(1) assms(2) show ?thesis by (rule job_status_append_new)
  next
    case 3
    have e: "job_status (fst (handle d r)) k =
        map_option (\<lambda>j. if j_id j = k0 then j_status (h j) else j_status j) (get_job d k)"
      using 3(1) by (rule job_status_map) (simp add: 3(2))
    show ?thesis
    proof (cases "get_job d k")
      case None
      then show ?thesis using e assms(2) by simp
    next
      case (Some y)
      then have "(if j_id y = k0 then ''assigned'' else j_status y) = ''confirmed''"
        using e assms(2) 3(2) by simp
      then have "j_status y = ''confirmed''"
        by (cases "j_id y = k0") simp_all
      then show ?thesis using Some by (simp add: job_status_def)
    qed
  qed
qed

section \<open>Confirming an assignment\<close>

text \<open>
  C2. For a labourer \<open>u\<close> and an existing assignment \<open>a\<close>: when \<open>a\<close> is for another
  labourer the request is refused with the message \<open>Not allowed\<close> and nothing changes;
  otherwise \<open>confirmed_by_labour\<close> of \<open>a\<close> becomes true, and when \<open>accepted_by_farmer\<close>
  is true as well the status of the job of \<open>a\<close> becomes \<open>confirmed\<close>. No other request
  turns a job's status into \<open>confirmed\<close>, and when a confirmation does, the assignment
  has both flags afterwards.
\<close>

theorem confirm_assignment_handshake:
  assumes "current_user d s = Some u" and "u_role u = ''labour''"
    and "get_assignment d aid = Some a"
  shows "(a_labour_id a \<noteq> u_id u \<longrightarrow>
            confirm_assignment d s aid = (d, Redirect ''labour_dashboard'' [''Not allowed'']))
       \<and> (a_labour_id a = u_id u \<and> \<not> a_accepted_by_farmer a \<longrightarrow>
            confirm_assignment d s aid =
              (update_assignment d aid (\<lambda>a. a\<lparr>a_confirmed_by_labour := True\<rparr>),
               Redirect ''labour_dashboard'' [''You confirmed the assignment.'']))
       \<and> (a_labour_id a = u_id u \<and> a_accepted_by_farmer a \<and> get_job d (a_job_id a) \<noteq> None \<longrightarrow>
            confirm_assignment d s aid =
              (update_job (update_assignment d aid (\<lambda>a. a\<lparr>a_confirmed_by_labour := True\<rparr>))
                 (a_job_id a) (\<lambda>j. j\<lparr>j_status := ''confirmed''\<rparr>),
               Redirect ''labour_dashboard'' [''You confirmed the assignment.''])
            \<and> job_status (fst (confirm_assignment d s aid)) (a_job_id a) = Some ''confirmed'')
       \<and> (a_labour_id a = u_id u \<and> (a_accepted_by_farmer a \<longrightarrow> get_job d (a_job_id a) \<noteq> None) \<longrightarrow>
            get_assignment (fst (confirm_assignment d s aid)) aid =
              Some (a\<lparr>a_confirmed_by_labour := True\<rparr>))
       \<and> (\<forall>r k. (\<forall>s' x. r \<noteq> ConfirmAssignment s' x)
               \<and> job_status (fst (handle d r)) k = Some ''confirmed'' \<longrightarrow>
            job_status d k = Some ''confirmed'')
       \<and> (\<forall>k. job_status (fst (confirm_assignment d s aid)) k = Some ''confirmed''
               \<and> job_status d k \<noteq> Some ''confirmed'' \<longrightarrow>
            k = a_job_id a \<and> a_labour_id a = u_id u \<and> a_accepted_by_farmer a
            \<and> get_assignment (fst (confirm_assignment d s aid)) aid =
                Some (a\<lparr>a_confirmed_by_labour := True\<rparr>))"
proof -
  note unf = confirm_assignment_unfold[OF assms]
  have aid: "a_id a = aid" using assms(3) by (rule get_assignment_id)
  let ?d1 = "update_assignment d aid (\<lambda>a. a\<lparr>a_confirmed_by_labour := True\<rparr>)"
  let ?d2 = "update_job ?d1 (a_job_id a) (\<lambda>j. j\<lparr>j_status := ''confirmed''\<rparr>)"
  have ga1: "get_assignment ?d1 aid = Some (a\<lparr>a_confirmed_by_labour := True\<rparr>)"
    using assms(3) aid by (simp add: get_assignment_update)
  have ga2: "get_assignment ?d2 aid = Some (a\<lparr>a_confirmed_by_labour := True\<rparr>)"
    using ga1 by (simp add: get_assignment_def)
  have gj1: "get_job ?d1 k = get_job d k" for k
    by (simp add: get_job_def)
  have jobs2: "jobs ?d2 =
      map (\<lambda>j. if j_id j = a_job_id a then j\<lparr>j_status := ''confirmed''\<rparr> else j) (jobs d)"
    by simp
  have js2: "job_status ?d2 k =
      map_option (\<lambda>j. if j_id j = a_job_id a then ''confirmed'' else j_status j) (get_job d k)" for k
    using job_status_map[OF jobs2, of k] by (cases "get_job d k") simp_all
  have 1: "a_labour_id a \<noteq> u_id u \<longrightarrow>
            confirm_assignment d s aid = (d, Redirect ''labour_dashboard'' [''Not allowed''])"
    by (simp add: unf)
  have 2: "a_labour_id a = u_id u \<and> \<not> a_accepted_by_farmer a \<longrightarrow>
            confirm_assignment d s aid =
              (?d1, Redirect ''labour_dashboard'' [''You confirmed the assignment.''])"
    by (simp add: unf)
  have 3: "a_labour_id a = u_id u \<and> a_accepted_by_farmer a \<and> get_job d (a_job_id a) \<noteq> None \<longrightarrow>
            confirm_assignment d s aid =
              (?d2, Redirect ''labour_dashboard'' [''You confirmed the assignment.''])
            \<and> job_status (fst (confirm_assignment d s aid)) (a_job_id a) = Some ''confirmed''"
  proof (intro impI)
    assume h: "a_labour_id a = u_id u \<and> a_accepted_by_farmer a \<and> get_job d (a_job_id a) \<noteq> None"
    then obtain job where job: "get_job d (a_job_id a) = Some job" by auto
    have e: "confirm_assignment d s aid =
        (?d2, Redirect ''labour_dashboard'' [''You confirmed the assignment.''])"
      using h job by (simp add: unf)
    moreover have "job_status ?d2 (a_job_id a) = Some ''confirmed''"
      using job get_job_id[OF job] by (simp add: js2)
    ultimately show "confirm_assignment d s aid =
              (?d2, Redirect ''labour_dashboard'' [''You confirmed the assignment.''])
            \<and> job_status (fst (confirm_assignment d s aid)) (a_job_id a) = Some ''confirmed''"
      by simp
  qed
  have 4: "a_labour_id a = u_id u \<and> (a_accepted_by_farmer a \<longrightarrow> get_job d (a_job_id a) \<noteq> None) \<longrightarrow>
            get_assignment (fst (confirm_assignment d s aid)) aid =
              Some (a\<lparr>a_confirmed_by_labour := True\<rparr>)"
  proof (intro impI)
    assume h: "a_labour_id a = u_id u \<and> (a_accepted_by_farmer a \<longrightarrow> get_job d (a_job_id a) \<noteq> None)"
    show "get_assignment (fst (confirm_assignment d s aid)) aid =
              Some (a\<lparr>a_confirmed_by_labour := True\<rparr>)"
    proof (cases "a_accepted_by_farmer a")
      case True
      with h 3 show ?thesis using ga2 by simp
    next
      case False
      with h 2 show ?thesis using ga1 by simp
    qed
  qed
  have 5: "\<forall>r k. (\<forall>s' x. r \<noteq> ConfirmAssignment s' x)
               \<and> job_status (fst (handle d r)) k = Some ''confirmed'' \<longrightarrow>
            job_status d k = Some ''confirmed''"
    using other_confirmed by blast
  have 6: "\<forall>k. job_status (fst (confirm_assignment d s aid)) k = Some ''confirmed''
               \<and> job_status d k \<noteq> Some ''confirmed'' \<longrightarrow>
            k = a_job_id a \<and> a_labour_id a = u_id u \<and> a_accepted_by_farmer a
            \<and> get_assignment (fst (confirm_assignment d s aid)) aid =
                Some (a\<lparr>a_confirmed_by_labour := True\<rparr>)"
  proof (intro allI impI)
    fix k
    assume h: "job_status (fst (confirm_assignment d s aid)) k = Some ''confirmed''
               \<and> job_status d k \<noteq> Some ''confirmed''"
    have l: "a_labour_id a = u_id u"
      using h 1 by (cases "a_labour_id a = u_id u") auto
    have f: "a_accepted_by_farmer a"
    proof (rule ccontr)
      assume "\<not> a_accepted_by_farmer a"
      with l 2 have "jobs (fst (confirm_assignment d s aid)) = jobs d" by simp
      then have "job_status (fst (confirm_assignment d s aid)) k = job_status d k"
        by (rule job_status_cong)
      with h show False by simp
    qed
    have g: "get_job d (a_job_id a) \<noteq> None"
    proof
      assume "get_job d (a_job_id a) = None"
      with l f have "fst (confirm_assignment d s aid) = d" by (simp add: unf)
      with h show False by simp
    qed
    from l f g 3 have e: "fst (confirm_assignment d s aid) = ?d2" by simp
    have k: "k = a_job_id a"
    proof (rule ccontr)
      assume "k \<noteq> a_job_id a"
      moreover have "\<And>y. get_job d k = Some y \<Longrightarrow> j_id y = k" by (rule get_job_id)
      ultimately have "map_option (\<lambda>j. if j_id j = a_job_id a then ''confirmed'' else j_status j)
            (get_job d k) = map_option j_status (get_job d k)"
        by (cases "get_job d k") auto
      then have "job_status ?d2 k = job_status d k"
        unfolding js2 by (simp add: job_status_def)
      with h e show False by simp
    qed
    show "k = a_job_id a \<and> a_labour_id a = u_id u \<and> a_accepted_by_farmer a
            \<and> get_assignment (fst (confirm_assignment d s aid)) aid =
                Some (a\<lparr>a_confirmed_by_labour := True\<rparr>)"
      using k l f e ga2 by simp
  qed
  show ?thesis using 1 2 3 4 5 6 by (intro conjI)
qed

theorem confirm_assignment_handshake_witness:
  "current_user (run empty_db accepted) labour_L =
       Some \<lparr>u_id = 2, u_name = ''L'', u_phone = ''200'', u_password_hash = ''pbkdf2:pl'',
             u_role = ''labour''\<rparr>
   \<and> current_user (run empty_db accepted) labour_L2 =
       Some \<lparr>u_id = 3, u_name = ''L2'', u_phone = ''300'', u_password_hash = ''pbkdf2:pm'',
             u_role = ''labour''\<rparr>
   \<and> get_assignment (run empty_db accepted) 1 =
       Some \<lparr>a_id = 1, a_job_id = 1, a_labour_id = 2, a_accepted_by_farmer = True,
             a_confirmed_by_labour = False\<rparr>
   \<and> confirm_assignment (run empty_db accepted) labour_L2 1 =
       (run empty_db accepted, Redirect ''labour_dashboard'' [''Not allowed''])
   \<and> job_status (run empty_db accepted) 1 = Some ''assigned''
   \<and> job_status (fst (confirm_assignment (run empty_db accepted) labour_L 1)) 1 = Some ''confirmed''
   \<and> get_assignment (fst (confirm_assignment (run empty_db accepted) labour_L 1)) 1 =
       Some \<lparr>a_id = 1, a_job_id = 1, a_labour_id = 2, a_accepted_by_farmer = True,
             a_confirmed_by_labour = True\<rparr>"
proof -
  have u: "current_user (run empty_db accepted) labour_L =
       Some \<lparr>u_id = 2, u_name = ''L'', u_phone = ''200'', u_password_hash = ''pbkdf2:pl'',
             u_role = ''labour''\<rparr>"
    by code_simp
  have v: "current_user (run empty_db accepted) labour_L2 =
       Some \<lparr>u_id = 3, u_name = ''L2'', u_phone = ''300'', u_password_hash = ''pbkdf2:pm'',
             u_role = ''labour''\<rparr>"
    by code_simp
  have a: "get_assignment (run empty_db accepted) 1 =
       Some \<lparr>a_id = 1, a_job_id = 1, a_labour_id = 2, a_accepted_by_farmer = True,
             a_confirmed_by_labour = False\<rparr>"
    by code_simp
  have j: "get_job (run empty_db accepted) 1 \<noteq> None"
    by code_simp
  have st: "job_status (run empty_db accepted) 1 = Some ''assigned''"
    by code_simp
  note tu = confirm_assignment_handshake[OF u _ a, simplified]
  note tv = confirm_assignment_handshake[OF v _ a, simplified]
  have n: "confirm_assignment (run empty_db accepted) labour_L2 1 =
       (run empty_db accepted, Redirect ''labour_dashboard'' [''Not allowed''])"
    using tv by blast
  have c: "job_status (fst (confirm_assignment (run empty_db accepted) labour_L 1)) 1 = Some ''confirmed''"
    using tu j by blast
  have g: "get_assignment (fst (confirm_assignment (run empty_db accepted) labour_L 1)) 1 =
       Some \<lparr>a_id = 1, a_job_id = 1, a_labour_id = 2, a_accepted_by_farmer = True,
             a_confirmed_by_labour = True\<rparr>"
    using tu j by blast
  show ?thesis using u v a n st c g by blast
qed

section \<open>The life cycle of a job\<close>

text \<open>
  C3, as stated, fails: no route looks at the status it overwrites. After L has confirmed
  the assignment, job 1 is \<open>confirmed\<close>; when F then assigns L2 to job 1, the job is
  \<open>assigned\<close> again.
\<close>

theorem confirmed_job_reassigned_counterexample:
  "job_status (run empty_db confirmed) 1 = Some ''confirmed''
   \<and> handle (run empty_db confirmed) (AssignLabour farmer_F 1 3) =
       (run empty_db (confirmed @ [AssignLabour farmer_F 1 3]),
        Redirect ''farmer_dashboard'' [''Labour accepted for job. Waiting for labour confirmation.''])
   \<and> job_status (run empty_db (confirmed @ [AssignLabour farmer_F 1 3])) 1 = Some ''assigned''"
  by code_simp

text \<open>
  C3, amended. In every state reached from the empty database the status of a job is
  \<open>open\<close>, \<open>assigned\<close> or \<open>confirmed\<close> (nothing writes \<open>closed\<close>). A request leaves a
  job's status as it is or sets it to \<open>assigned\<close> or \<open>confirmed\<close>, so no request sets it
  back to \<open>open\<close>. The order is not kept beyond that: a farmer's direct assignment on
  a confirmed job, and a farmer's acceptance of a change request for a confirmed job,
  set it back to \<open>assigned\<close>. Whenever a job is \<open>confirmed\<close>, an assignment of that
  job has both flags true.
\<close>

theorem job_status_lifecycle:
  assumes "reachable d"
  shows "(\<forall>j\<in>set (jobs d). j_status j = ''open'' \<or> j_status j = ''assigned''
             \<or> j_status j = ''confirmed'')
       \<and> (\<forall>r k st. job_status d k = Some st \<longrightarrow>
             job_status (fst (handle d r)) k = Some st
             \<or> job_status (fst (handle d r)) k = Some ''assigned''
             \<or> job_status (fst (handle d r)) k = Some ''confirmed'')
       \<and> (\<forall>s u k l. current_user d s = Some u \<and> u_role u = ''farmer''
               \<and> job_status d k = Some ''confirmed'' \<longrightarrow>
             job_status (fst (assign_labour d s k l)) k = Some ''assigned'')
       \<and> (\<forall>s u cid cr f. current_user d s = Some u \<and> u_role u = ''farmer''
               \<and> get_change_request d cid = Some cr \<and> f ''decision'' = Some ''accept''
               \<and> job_status d (c_job_id cr) = Some ''confirmed'' \<longrightarrow>
             job_status (fst (decide_change d s cid f)) (c_job_id cr) = Some ''assigned'')
       \<and> (\<forall>j\<in>set (jobs d). j_status j = ''confirmed'' \<longrightarrow>
             (\<exists>a\<in>set (assignments d). a_job_id a = j_id j
                 \<and> a_accepted_by_farmer a \<and> a_confirmed_by_labour a))"
proof (intro conjI allI impI)
  show "\<forall>j\<in>set (jobs d). j_status j = ''open'' \<or> j_status j = ''assigned''
             \<or> j_status j = ''confirmed''"
    using reachable_status[OF assms] by simp
next
  fix r k st
  assume "job_status d k = Some st"
  then show "job_status (fst (handle d r)) k = Some st
             \<or> job_status (fst (handle d r)) k = Some ''assigned''
             \<or> job_status (fst (handle d r)) k = Some ''confirmed''"
    by (rule status_step)
next
  fix s u k l
  assume h: "current_user d s = Some u \<and> u_role u = ''farmer''
               \<and> job_status d k = Some ''confirmed''"
  then obtain y where y: "get_job d k = Some y"
    by (auto simp: job_status_def)
  let ?e = "update_job (upsert_assignment d k l) k (\<lambda>j. j\<lparr>j_status := ''assigned''\<rparr>)"
  have e: "fst (assign_labour d s k l) = ?e"
    using h y assign_labour_unfold[of d s u k l] by simp
  have "jobs ?e = map (\<lambda>j. if j_id j = k then j\<lparr>j_status := ''assigned''\<rparr> else j) (jobs d)"
    by simp
  from job_status_map[OF this, of k] y get_job_id[OF y]
  have "job_status ?e k = Some ''assigned''" by simp
  then show "job_status (fst (assign_labour d s k l)) k = Some ''assigned''"
    by (simp add: e)
next
  fix s u cid and cr :: change_request and f :: form
  assume h: "current_user d s = Some u \<and> u_role u = ''farmer''
               \<and> get_change_request d cid = Some cr \<and> f ''decision'' = Some ''accept''
               \<and> job_status d (c_job_id cr) = Some ''confirmed''"
  then obtain y where y: "get_job d (c_job_id cr) = Some y"
    by (auto simp: job_status_def)
  from h have u: "current_user d s = Some u" and r: "u_role u = ''farmer''"
    and c: "get_change_request d cid = Some cr" and dec: "f ''decision'' = Some ''accept''"
    by auto
  define g :: "job \<Rightarrow> job" where
    "g = (\<lambda>j. j\<lparr>j_days := (case c_requested_days cr of
                            None \<Rightarrow> j_days j
                          | Some n \<Rightarrow> if n \<noteq> 0 then n else j_days j),
               j_wage := (if truthy_str (c_requested_wage cr)
                          then c_requested_wage cr else j_wage j),
               j_stay_info := (if truthy_str (c_requested_stay cr)
                               then c_requested_stay cr else j_stay_info j),
               j_status := ''assigned''\<rparr>)"
  have gid: "\<And>j. j_id (g j) = j_id j" and gst: "\<And>j. j_status (g j) = ''assigned''"
    by (simp_all add: g_def)
  have "jobs (fst (decide_change d s cid f)) =
      map (\<lambda>j. if j_id j = c_job_id cr then g j else j) (jobs d)"
    using y by (simp add: decide_change_accept_unfold[where f = f, OF u r c dec] g_def)
  from job_status_map[OF this gid, of "c_job_id cr"] y get_job_id[OF y]
  show "job_status (fst (decide_change d s cid f)) (c_job_id cr) = Some ''assigned''"
    by (simp add: gst)
next
  show "\<forall>j\<in>set (jobs d). j_status j = ''confirmed'' \<longrightarrow>
             (\<exists>a\<in>set (assignments d). a_job_id a = j_id j
                 \<and> a_accepted_by_farmer a \<and> a_confirmed_by_labour a)"
    using assms by (rule reachable_confirmed)
qed

theorem job_status_lifecycle_witness:
  "reachable (run empty_db confirmed)
   \<and> current_user (run empty_db confirmed) farmer_F =
       Some \<lparr>u_id = 1, u_name = ''F'', u_phone = ''100'', u_password_hash = ''pbkdf2:pf'',
             u_role = ''farmer''\<rparr>
   \<and> jobs (run empty_db confirmed) =
       [\<lparr>j_id = 1, j_farmer_id = 1, j_title = ''Harvest'', j_work_type = None, j_days = 5,
         j_stay_info = None, j_wage = Some ''500/day'', j_location = None, j_contact = None,
         j_status = ''confirmed''\<rparr>]
   \<and> job_status (run empty_db confirmed) 1 = Some ''confirmed''
   \<and> job_status (fst (assign_labour (run empty_db confirmed) farmer_F 1 3)) 1 = Some ''assigned''
   \<and> (\<exists>a. a \<in> set (assignments (run empty_db confirmed)) \<and> a_job_id a = 1
          \<and> a_accepted_by_farmer a \<and> a_confirmed_by_labour a)
   \<and> reachable (run empty_db renegotiated)
   \<and> get_change_request (run empty_db renegotiated) 2 =
       Some \<lparr>c_id = 2, c_job_id = 1, c_labour_id = 3, c_requested_days = None,
             c_requested_wage = None, c_requested_stay = None, c_message = [],
             c_status = ''pending''\<rparr>
   \<and> job_status (run empty_db renegotiated) 1 = Some ''confirmed''
   \<and> job_status (fst (decide_change (run empty_db renegotiated) farmer_F 2
                          [''decision'' \<mapsto> ''accept''])) 1 = Some ''assigned''"
proof -
  have r: "reachable (run empty_db confirmed)"
    by (rule reachable_run) (rule reachable.init)
  have u: "current_user (run empty_db confirmed) farmer_F =
       Some \<lparr>u_id = 1, u_name = ''F'', u_phone = ''100'', u_password_hash = ''pbkdf2:pf'',
             u_role = ''farmer''\<rparr>"
    by code_simp
  have jb: "jobs (run empty_db confirmed) =
       [\<lparr>j_id = 1, j_farmer_id = 1, j_title = ''Harvest'', j_work_type = None, j_days = 5,
         j_stay_info = None, j_wage = Some ''500/day'', j_location = None, j_contact = None,
         j_status = ''confirmed''\<rparr>]"
    by code_simp
  have st: "job_status (run empty_db confirmed) 1 = Some ''confirmed''"
    by code_simp
  note t = job_status_lifecycle[OF r]
  have a: "job_status (fst (assign_labour (run empty_db confirmed) farmer_F 1 3)) 1 = Some ''assigned''"
    using t u st by fastforce
  have b: "\<exists>a. a \<in> set (assignments (run empty_db confirmed)) \<and> a_job_id a = 1
          \<and> a_accepted_by_farmer a \<and> a_confirmed_by_labour a"
    using t jb by fastforce
  have r2: "reachable (run empty_db renegotiated)"
    by (rule reachable_run) (rule reachable.init)
  have u2: "current_user (run empty_db renegotiated) farmer_F =
       Some \<lparr>u_id = 1, u_name = ''F'', u_phone = ''100'', u_password_hash = ''pbkdf2:pf'',
             u_role = ''farmer''\<rparr>"
    by code_simp
  have c2: "get_change_request (run empty_db renegotiated) 2 =
       Some \<lparr>c_id = 2, c_job_id = 1, c_labour_id = 3, c_requested_days = None,
             c_requested_wage = None, c_requested_stay = None, c_message = [],
             c_status = ''pending''\<rparr>"
    by code_simp
  have st2: "job_status (run empty_db renegotiated) 1 = Some ''confirmed''"
    by code_simp
  have "\<forall>s u cid cr f. current_user (run empty_db renegotiated) s = Some u
          \<and> u_role u = ''farmer''
          \<and> get_change_request (run empty_db renegotiated) cid = Some cr
          \<and> f ''decision'' = Some ''accept''
          \<and> job_status (run empty_db renegotiated) (c_job_id cr) = Some ''confirmed'' \<longrightarrow>
        job_status (fst (decide_change (run empty_db renegotiated) s cid f)) (c_job_id cr) =
          Some ''assigned''"
    using job_status_lifecycle[OF r2] by blast
  from this[rule_format, of farmer_F _ 2 _ "[''decision'' \<mapsto> ''accept'']"] u2 c2 st2
  have e: "job_status (fst (decide_change (run empty_db renegotiated) farmer_F 2
                          [''decision'' \<mapsto> ''accept''])) 1 = Some ''assigned''"
    by simp
  show ?thesis using r u jb st a b r2 c2 st2 e by blast
qed

section \<open>A job that does not exist\<close>

text \<open>
  C10. A labourer's change request is stored for whatever job id the URL names, whether
  or not a job has it, so a state with a pending request for a missing job is reachable.
  For a farmer, accepting a request whose job is missing, and directly assigning a
  labourer to a missing job, both end in \<open>AttributeError\<close> (the attribute assignment
  on \<open>None\<close>), not in a 404, and leave the database as it was. When the job exists, both
  requests complete with the redirect to the farmer's dashboard.
\<close>

theorem missing_job_dereferenced:
  assumes "current_user d s = Some u" and "u_role u = ''farmer''"
  shows "(\<exists>e c. reachable e \<and> c \<in> set (change_requests e) \<and> c_status c = ''pending''
             \<and> get_job e (c_job_id c) = None)
       \<and> (\<forall>t v j f. current_user d t = Some v \<and> u_role v = ''labour''
               \<and> f ''requested_days'' = None \<longrightarrow>
             (\<exists>c. request_change d t j f =
                     (d\<lparr>change_requests := change_requests d @ [c]\<rparr>,
                      Redirect ''job_view'' [''Change request sent to farmer''])
                \<and> c_job_id c = j \<and> c_status c = ''pending''))
       \<and> (\<forall>cid cr f. get_change_request d cid = Some cr \<and> f ''decision'' = Some ''accept''
               \<and> get_job d (c_job_id cr) = None \<longrightarrow>
             decide_change d s cid f = (d, Raised AttributeError))
       \<and> (\<forall>j l. get_job d j = None \<longrightarrow> assign_labour d s j l = (d, Raised AttributeError))
       \<and> (\<forall>cid cr f. get_change_request d cid = Some cr \<and> f ''decision'' = Some ''accept''
               \<and> get_job d (c_job_id cr) \<noteq> None \<longrightarrow>
             snd (decide_change d s cid f) =
               Redirect ''farmer_dashboard''
                 [''Change accepted and labour assigned (awaiting labour confirmation).''])
       \<and> (\<forall>j l. get_job d j \<noteq> None \<longrightarrow>
             snd (assign_labour d s j l) =
               Redirect ''farmer_dashboard''
                 [''Labour accepted for job. Waiting for labour confirmation.''])"
proof (intro conjI allI impI)
  have r: "reachable (run empty_db dangling)"
    by (rule reachable_run) (rule reachable.init)
  have c: "change_requests (run empty_db dangling) =
      [\<lparr>c_id = 1, c_job_id = 7, c_labour_id = 2, c_requested_days = None,
        c_requested_wage = None, c_requested_stay = None, c_message = [],
        c_status = ''pending''\<rparr>]"
    by code_simp
  have g: "get_job (run empty_db dangling) 7 = None"
    by code_simp
  show "\<exists>e c. reachable e \<and> c \<in> set (change_requests e) \<and> c_status c = ''pending''
             \<and> get_job e (c_job_id c) = None"
    apply (rule exI[of _ "run empty_db dangling"])
    apply (rule exI[of _ "\<lparr>c_id = 1, c_job_id = 7, c_labour_id = 2, c_requested_days = None,
        c_requested_wage = None, c_requested_stay = None, c_message = [],
        c_status = ''pending''\<rparr>"])
    using r c g by simp
next
  fix t v j and f :: form
  assume h: "current_user d t = Some v \<and> u_role v = ''labour'' \<and> f ''requested_days'' = None"
  let ?c = "\<lparr>c_id = next_id (map c_id (change_requests d)), c_job_id = j,
             c_labour_id = u_id v, c_requested_days = None,
             c_requested_wage =
               (if truthy_str (f ''requested_wage'') then f ''requested_wage'' else None),
             c_requested_stay =
               (if truthy_str (f ''requested_stay'') then f ''requested_stay'' else None),
             c_message = (case f ''message'' of None \<Rightarrow> [] | Some t \<Rightarrow> t),
             c_status = ''pending''\<rparr>"
  have "request_change d t j f =
      (d\<lparr>change_requests := change_requests d @ [?c]\<rparr>,
       Redirect ''job_view'' [''Change request sent to farmer''])"
    using h by (simp add: request_change_def)
  then show "\<exists>c. request_change d t j f =
                     (d\<lparr>change_requests := change_requests d @ [c]\<rparr>,
                      Redirect ''job_view'' [''Change request sent to farmer''])
                \<and> c_job_id c = j \<and> c_status c = ''pending''"
    by (intro exI[of _ ?c]) simp
next
  fix cid and cr :: change_request and f :: form
  assume "get_change_request d cid = Some cr \<and> f ''decision'' = Some ''accept''
               \<and> get_job d (c_job_id cr) = None"
  then show "decide_change d s cid f = (d, Raised AttributeError)"
    using decide_change_accept_unfold[where f = f, OF assms, of cid cr] by simp
next
  fix j l
  assume "get_job d j = None"
  then show "assign_labour d s j l = (d, Raised AttributeError)"
    by (simp add: assign_labour_unfold[OF assms])
next
  fix cid and cr :: change_request and f :: form
  assume "get_change_request d cid = Some cr \<and> f ''decision'' = Some ''accept''
               \<and> get_job d (c_job_id cr) \<noteq> None"
  then show "snd (decide_change d s cid f) =
               Redirect ''farmer_dashboard''
                 [''Change accepted and labour assigned (awaiting labour confirmation).'']"
    using decide_change_accept_unfold[where f = f, OF assms, of cid cr] by auto
next
  fix j l
  assume "get_job d j \<noteq> None"
  then show "snd (assign_labour d s j l) =
               Redirect ''farmer_dashboard''
                 [''Labour accepted for job. Waiting for labour confirmation.'']"
    by (auto simp: assign_labour_unfold[OF assms])
qed

theorem missing_job_dereferenced_witness:
  "reachable (run empty_db dangling)
   \<and> current_user (run empty_db dangling) farmer_F =
       Some \<lparr>u_id = 1, u_name = ''F'', u_phone = ''100'', u_password_hash = ''pbkdf2:pf'',
             u_role = ''farmer''\<rparr>
   \<and> get_change_request (run empty_db dangling) 1 =
       Some \<lparr>c_id = 1, c_job_id = 7, c_labour_id = 2, c_requested_days = None,
             c_requested_wage = None, c_requested_stay = None, c_message = [],
             c_status = ''pending''\<rparr>
   \<and> get_job (run empty_db dangling) 7 = None
   \<and> decide_change (run empty_db dangling) farmer_F 1 [''decision'' \<mapsto> ''accept''] =
       (run empty_db dangling, Raised AttributeError)
   \<and> assign_labour (run empty_db dangling) farmer_F 7 2 =
       (run empty_db dangling, Raised AttributeError)
   \<and> get_job (run empty_db dangling) 1 \<noteq> None
   \<and> snd (assign_labour (run empty_db dangling) farmer_F 1 2) =
       Redirect ''farmer_dashboard''
         [''Labour accepted for job. Waiting for labour confirmation.'']"
proof -
  have r: "reachable (run empty_db dangling)"
    by (rule reachable_run) (rule reachable.init)
  have u: "current_user (run empty_db dangling) farmer_F =
       Some \<lparr>u_id = 1, u_name = ''F'', u_phone = ''100'', u_password_hash = ''pbkdf2:pf'',
             u_role = ''farmer''\<rparr>"
    by code_simp
  have c: "get_change_request (run empty_db dangling) 1 =
       Some \<lparr>c_id = 1, c_job_id = 7, c_labour_id = 2, c_requested_days = None,
             c_requested_wage = None, c_requested_stay = None, c_message = [],
             c_status = ''pending''\<rparr>"
    by code_simp
  have g7: "get_job (run empty_db dangling) 7 = None"
    by code_simp
  have g1: "get_job (run empty_db dangling) 1 \<noteq> None"
    by code_simp
  note t = missing_job_dereferenced[OF u, simplified]
  have a: "decide_change (run empty_db dangling) farmer_F 1 [''decision'' \<mapsto> ''accept''] =
       (run empty_db dangling, Raised AttributeError)"
  proof -
    from t have "\<forall>cid cr f. get_change_request (run empty_db dangling) cid = Some cr
          \<and> f ''decision'' = Some ''accept''
          \<and> get_job (run empty_db dangling) (c_job_id cr) = None \<longrightarrow>
        decide_change (run empty_db dangling) farmer_F cid f =
          (run empty_db dangling, Raised AttributeError)"
      by blast
    from this[rule_format, of 1 _ "[''decision'' \<mapsto> ''accept'']"] c g7
    show ?thesis by simp
  qed
  have b: "assign_labour (run empty_db dangling) farmer_F 7 2 =
       (run empty_db dangling, Raised AttributeError)"
    using t g7 by blast
  have e: "snd (assign_labour (run empty_db dangling) farmer_F 1 2) =
       Redirect ''farmer_dashboard''
         [''Labour accepted for job. Waiting for labour confirmation.'']"
    using t g1 by blast
  show ?thesis using r u c g7 a b g1 e by blast
qed

end
